theory Spec2Isabelle
  imports Main "HOL-Library.Char_ord" "HOL-Library.List_Lexorder"
begin

section \<open>Python values\<close>

text \<open>
  The exceptions the modelled functions can raise. A function that can raise returns
  \<open>py_error + 'a\<close>, with \<open>Inl\<close> for the exception.
\<close>

datatype py_error =
  IndexError | ValueError | AssertionError | SyntaxError | UnboundLocalError

definition and_then :: "py_error + 'a \<Rightarrow> ('a \<Rightarrow> py_error + 'b) \<Rightarrow> py_error + 'b" where
  "and_then m f = (case m of Inl e \<Rightarrow> Inl e | Inr x \<Rightarrow> f x)"

text \<open>\<^verbatim>\<open>xs[i]\<close> for an index \<open>i \<ge> 0\<close>.\<close>

definition index_at :: "'a list \<Rightarrow> nat \<Rightarrow> py_error + 'a" where
  "index_at xs i = (if i < length xs then Inr (xs ! i) else Inl IndexError)"

text \<open>Strings are lists of characters; the methods of \<^verbatim>\<open>str\<close> that the code uses.\<close>

definition startswith :: "string \<Rightarrow> string \<Rightarrow> bool" where
  "startswith s p = (take (length p) s = p)"

definition endswith :: "string \<Rightarrow> string \<Rightarrow> bool" where
  "endswith s p = (length p \<le> length s \<and> drop (length s - length p) s = p)"

text \<open>\<^verbatim>\<open>sub in s\<close> for strings.\<close>

fun contains :: "string \<Rightarrow> string \<Rightarrow> bool" where
  "contains [] sub = (sub = [])"
| "contains (c # cs) sub = (startswith (c # cs) sub \<or> contains cs sub)"

text \<open>The characters at which \<^verbatim>\<open>str.split()\<close> and \<^verbatim>\<open>str.strip()\<close> cut an ASCII string.\<close>

definition is_space :: "char \<Rightarrow> bool" where
  "is_space c = (c \<in> set [CHR '' '', CHR 0x09, CHR 0x0A, CHR 0x0B, CHR 0x0C, CHR 0x0D,
                             CHR 0x1C, CHR 0x1D, CHR 0x1E, CHR 0x1F])"

fun split_from :: "string \<Rightarrow> string \<Rightarrow> string list" where
  "split_from word [] = (if word = [] then [] else [word])"
| "split_from word (c # cs) =
     (if is_space c then (if word = [] then split_from [] cs else word # split_from [] cs)
      else split_from (word @ [c]) cs)"

definition split :: "string \<Rightarrow> string list" where
  "split s = split_from [] s"

text \<open>\<^verbatim>\<open>sep.join(xs)\<close>.\<close>

fun join :: "string \<Rightarrow> string list \<Rightarrow> string" where
  "join sep [] = []"
| "join sep [x] = x"
| "join sep (x # y # rest) = x @ sep @ join sep (y # rest)"

text \<open>
  \<^verbatim>\<open>s.replace(old, new)\<close>: every occurrence of \<open>old\<close>, found from the left and without
  overlap, is replaced. With an empty \<open>old\<close> Python puts \<open>new\<close> before every character and
  at the end.
\<close>

fun replace :: "string \<Rightarrow> string \<Rightarrow> string \<Rightarrow> string" where
  "replace [] old new = (if old = [] then new else [])"
| "replace (c # cs) old new =
     (if old = [] then new @ c # replace cs old new
      else if startswith (c # cs) old then new @ replace (drop (length old - 1) cs) old new
      else c # replace cs old new)"

section \<open>The module catalogue\<close>

text \<open>
  One row of the data frame \<^verbatim>\<open>module_catalogue\<close>. A cell that \<^verbatim>\<open>pandas\<close> reads as
  \<^verbatim>\<open>nan\<close> (an empty cell) is \<open>None\<close>. The catalogue is read from a file that is not part
  of the sources, so every function that reads it takes it as its first argument.
\<close>

record catalogue_row =
  Code :: string
  Running_semester :: string
  Year :: string
  Alternate_years :: string
  Prerequisites :: "string option"
  Antirequisites :: "string option"
  Timetable :: "string option"

text \<open>\<^verbatim>\<open>module_catalogue[module_catalogue['Module code'] == module]\<close>\<close>

definition catalogue_rows :: "catalogue_row list \<Rightarrow> string \<Rightarrow> catalogue_row list" where
  "catalogue_rows module_catalogue module = filter (\<lambda>row. Code row = module) module_catalogue"

section \<open>Report assembly: joining findings\<close>

text \<open>
  \<^verbatim>\<open>merge_list_to_long_string\<close> walks the list with two loop variables, the string built so
  far and the flag \<^verbatim>\<open>first_item_found\<close>; \<open>merge_loop\<close> is that loop, the definition below
  adds the final test \<^verbatim>\<open>if a_string == ''\<close>.
\<close>

fun merge_loop :: "string \<Rightarrow> bool \<Rightarrow> string list \<Rightarrow> string" where
  "merge_loop a_string first_item_found [] = a_string"
| "merge_loop a_string first_item_found (item # rest) =
     (if item \<noteq> ''None'' then
        (if first_item_found then merge_loop (a_string @ '', '' @ item) True rest
         else merge_loop item True rest)
      else merge_loop a_string first_item_found rest)"

definition merge_list_to_long_string :: "string list \<Rightarrow> string" where
  "merge_list_to_long_string a_list =
     (let a_string = merge_loop [] False a_list
      in if a_string = [] then ''None'' else a_string)"

text \<open>The words of the specification: the entries other than \<open>''None''\<close>, joined by \<open>'', ''\<close>.\<close>

definition non_None_entries :: "string list \<Rightarrow> string list" where
  "non_None_entries a_list = filter (\<lambda>item. item \<noteq> ''None'') a_list"

fun joined :: "string list \<Rightarrow> string" where
  "joined [] = []"
| "joined [x] = x"
| "joined (x # y # rest) = x @ '', '' @ joined (y # rest)"

section \<open>The student profile\<close>

text \<open>
  One row of the data frame \<^verbatim>\<open>honours_module_choices\<close>, with the four columns
  \<^verbatim>\<open>['Honours year', 'Academic year', 'Semester', 'Module code']\<close> that \<^verbatim>\<open>parse_excel_form\<close>
  gives it. The data frame is the list of its rows, in order.
\<close>

record choice_row =
  Honours_year :: string
  Academic_year :: string
  Semester :: string
  Module_code :: string

text \<open>
  The attributes of an instance of the class \<^verbatim>\<open>Student\<close>. The five attributes that are
  Python lists have the type \<open>'l\<close>: in a \<open>Student_object\<close> they are references into the
  store of list objects, in a \<open>Student_view\<close> they are the values read from the store.
\<close>

record 'l Student =
  student_id :: int
  full_name :: string
  email :: string
  programme_name :: string
  year_of_study :: int
  expected_honours_years :: int
  current_honours_year :: int
  passed_modules :: 'l
  passed_honours_modules :: 'l
  honours_module_choices :: "choice_row list"
  full_module_list :: 'l
  all_honours_modules :: 'l
  planned_honours_modules :: 'l

text \<open>
  The store of list objects: a reference is an index into it, a new list object is put at
  its end. Two attributes bound to the same list object hold the same reference.
\<close>

type_synonym reference = nat
type_synonym store = "string list list"
type_synonym Student_object = "reference Student"
type_synonym Student_view = "string list Student"

definition new_list :: "store \<Rightarrow> string list \<Rightarrow> store \<times> reference" where
  "new_list st xs = (st @ [xs], length st)"

definition extend_list :: "store \<Rightarrow> reference \<Rightarrow> string list \<Rightarrow> store" where
  "extend_list st r xs = st[r := st ! r @ xs]"

text \<open>
  \<^verbatim>\<open>Student.__init__\<close>. \<^verbatim>\<open>passed_modules.copy()\<close> and \<^verbatim>\<open>tolist()\<close> make new list objects,
  \<^verbatim>\<open>self.all_honours_modules = self.passed_honours_modules\<close> binds a second name to the
  list object that was passed in, and \<^verbatim>\<open>+=\<close> on a list extends the object in place.
  The two references passed in are references to list objects of the store.
\<close>

definition Student_init ::
  "store \<Rightarrow> int \<Rightarrow> string \<Rightarrow> string \<Rightarrow> string \<Rightarrow> int \<Rightarrow> int \<Rightarrow> int \<Rightarrow> reference \<Rightarrow> reference
     \<Rightarrow> choice_row list \<Rightarrow> store \<times> Student_object" where
  "Student_init st a_student_id a_full_name an_email a_programme_name a_year_of_study
       the_expected_honours_years a_current_honours_year the_passed_modules
       the_passed_honours_modules the_honours_module_choices =
     (let (st1, the_full_module_list) = new_list st (st ! the_passed_modules);
          st2 = extend_list st1 the_full_module_list
                  (map Module_code the_honours_module_choices);
          the_all_honours_modules = the_passed_honours_modules;
          st3 = extend_list st2 the_all_honours_modules
                  (map Module_code the_honours_module_choices);
          (st4, the_planned_honours_modules) =
             new_list st3 (map Module_code the_honours_module_choices)
      in (st4,
          \<lparr>student_id = a_student_id, full_name = a_full_name, email = an_email,
           programme_name = a_programme_name, year_of_study = a_year_of_study,
           expected_honours_years = the_expected_honours_years,
           current_honours_year = a_current_honours_year,
           passed_modules = the_passed_modules,
           passed_honours_modules = the_passed_honours_modules,
           honours_module_choices = the_honours_module_choices,
           full_module_list = the_full_module_list,
           all_honours_modules = the_all_honours_modules,
           planned_honours_modules = the_planned_honours_modules\<rparr>))"

text \<open>Reading the list attributes of a student object from the store.\<close>

definition read_student :: "store \<Rightarrow> Student_object \<Rightarrow> Student_view" where
  "read_student st student =
     \<lparr>student_id = student_id student, full_name = full_name student, email = email student,
      programme_name = programme_name student, year_of_study = year_of_study student,
      expected_honours_years = expected_honours_years student,
      current_honours_year = current_honours_year student,
      passed_modules = st ! passed_modules student,
      passed_honours_modules = st ! passed_honours_modules student,
      honours_module_choices = honours_module_choices student,
      full_module_list = st ! full_module_list student,
      all_honours_modules = st ! all_honours_modules student,
      planned_honours_modules = st ! planned_honours_modules student\<rparr>"

text \<open>\<^verbatim>\<open>Series.unique()\<close>: the distinct values, in the order of their first appearance.\<close>

fun py_unique :: "'a list \<Rightarrow> 'a list" where
  "py_unique [] = []"
| "py_unique (x # xs) = x # filter (\<lambda>y. y \<noteq> x) (py_unique xs)"

definition honours_years_of :: "choice_row list \<Rightarrow> string list" where
  "honours_years_of choices = py_unique (map Honours_year choices)"

definition rows_of_year :: "choice_row list \<Rightarrow> string \<Rightarrow> choice_row list" where
  "rows_of_year choices honours_year = filter (\<lambda>row. Honours_year row = honours_year) choices"

definition rows_of_semester :: "choice_row list \<Rightarrow> string \<Rightarrow> choice_row list" where
  "rows_of_semester data_base semester = filter (\<lambda>row. Semester row = semester) data_base"

definition rows_without_module :: "choice_row list \<Rightarrow> string \<Rightarrow> choice_row list" where
  "rows_without_module data_base code = filter (\<lambda>row. Module_code row \<noteq> code) data_base"

section \<open>Programme requirements: credit load and semester split\<close>

definition credit_finding :: "string \<Rightarrow> string" where
  "credit_finding honours_year = ''Not collecting 120 credits in '' @ honours_year"

text \<open>
  The first loop of \<^verbatim>\<open>check_for_120_credits_each_year\<close>. Its state is the list of findings
  and the variable \<^verbatim>\<open>this_data_base\<close>, which the loop rebinds in every round and which
  is still bound to the rows of the last honours year when the loop has ended.
\<close>

fun credit_load_loop ::
  "choice_row list \<Rightarrow> string list \<Rightarrow> string list \<times> choice_row list
     \<Rightarrow> string list \<times> choice_row list" where
  "credit_load_loop choices [] state = state"
| "credit_load_loop choices (honours_year # rest) (missed, previous_data_base) =
     (let this_data_base = rows_of_year choices honours_year;
          missed1 =
            (if honours_year = ''Year 1'' \<or> honours_year = ''Year 2'' then
               (if length this_data_base \<noteq> 8 then missed @ [credit_finding honours_year]
                else missed)
             else missed);
          missed2 =
            (if honours_year = ''Year 3'' \<and> length this_data_base \<noteq> 7
             then missed1 @ [credit_finding honours_year] else missed1)
      in credit_load_loop choices rest (missed2, this_data_base))"

text \<open>The three advisory messages of the split check.\<close>

definition even_split_advice :: "string \<Rightarrow> string" where
  "even_split_advice honours_year = ''Not taking even credit split in '' @ honours_year"

definition high_load_advice :: string where
  "high_load_advice =
     ''Student is taking a high course load in second semester of final honours year''"

definition uneven_load_advice :: string where
  "uneven_load_advice = ''Student is taking uneven course load in final honours year''"

text \<open>The inner loop \<^verbatim>\<open>for semester in ['S1', 'S2']\<close> of the second loop.\<close>

fun even_split_semesters ::
  "choice_row list \<Rightarrow> string \<Rightarrow> string list \<Rightarrow> string list \<Rightarrow> string list" where
  "even_split_semesters this_data_base honours_year [] recommendations = recommendations"
| "even_split_semesters this_data_base honours_year (semester # rest) recommendations =
     (let this_smaller_data_base = rows_of_semester this_data_base semester
      in even_split_semesters this_data_base honours_year rest
           (if length this_smaller_data_base \<noteq> 4
            then recommendations @ [even_split_advice honours_year]
            else recommendations))"

text \<open>
  The second loop. It reads \<^verbatim>\<open>this_data_base\<close> as the first loop left it, and both
  \<^verbatim>\<open>semester_1_modules\<close> and \<^verbatim>\<open>semester_2_modules\<close> select the rows of \<^verbatim>\<open>'S1'\<close>, as the
  source does.
\<close>

fun split_loop ::
  "int \<Rightarrow> choice_row list \<Rightarrow> string list \<Rightarrow> string list \<Rightarrow> string list" where
  "split_loop expected this_data_base [] recommendations = recommendations"
| "split_loop expected this_data_base (honours_year # rest) recommendations =
     split_loop expected this_data_base rest
       (if honours_year = ''Year 1'' \<or> (honours_year = ''Year 2'' \<and> expected = 3) then
          even_split_semesters this_data_base honours_year [''S1'', ''S2''] recommendations
        else if honours_year = ''Year 2'' then
          (let this_reduced_data_base = rows_without_module this_data_base ''MT4599'';
               semester_1_modules =
                 map Module_code (rows_of_semester this_reduced_data_base ''S1'');
               semester_2_modules =
                 map Module_code (rows_of_semester this_reduced_data_base ''S1'')
           in if length semester_1_modules \<noteq> 4 \<or> length semester_2_modules \<noteq> 3
              then recommendations @ [high_load_advice]
              else recommendations)
        else if honours_year = ''Year 3'' then
          (let this_reduced_data_base = rows_without_module this_data_base ''MT5599'';
               semester_1_modules =
                 map Module_code (rows_of_semester this_reduced_data_base ''S1'');
               semester_2_modules =
                 map Module_code (rows_of_semester this_reduced_data_base ''S1'')
           in if length semester_1_modules \<noteq> 3 \<or> length semester_2_modules \<noteq> 3
              then recommendations @ [uneven_load_advice]
              else recommendations)
        else recommendations)"

text \<open>
  The two lists that \<^verbatim>\<open>check_for_120_credits_each_year\<close> builds. When there is no honours
  year neither loop runs and \<^verbatim>\<open>this_data_base\<close> is never read, so its initial value
  here is immaterial.
\<close>

definition credit_load_findings :: "Student_view \<Rightarrow> string list" where
  "credit_load_findings student =
     fst (credit_load_loop (honours_module_choices student)
            (honours_years_of (honours_module_choices student)) ([], []))"

definition split_recommendations :: "Student_view \<Rightarrow> string list" where
  "split_recommendations student =
     (let honours_years = honours_years_of (honours_module_choices student);
          this_data_base =
            snd (credit_load_loop (honours_module_choices student) honours_years ([], []))
      in split_loop (expected_honours_years student) this_data_base honours_years [])"

definition check_for_120_credits_each_year :: "Student_view \<Rightarrow> string \<times> string" where
  "check_for_120_credits_each_year student =
     (merge_list_to_long_string (credit_load_findings student),
      merge_list_to_long_string (split_recommendations student))"

text \<open>The number of entries the credit-load rule asks of an honours year.\<close>

definition required_entries :: "string \<Rightarrow> nat" where
  "required_entries honours_year = (if honours_year = ''Year 3'' then 7 else 8)"

section \<open>Timetable clashes\<close>

text \<open>\<^verbatim>\<open>s[:-1]\<close> when \<open>s\<close> ends with a comma.\<close>

definition without_final_comma :: "string \<Rightarrow> string" where
  "without_final_comma s = (if endswith s '','' then butlast s else s)"

text \<open>
  The \<^verbatim>\<open>while\<close> loop of \<^verbatim>\<open>get_timeslots_for_module\<close>: it takes the remaining words two
  at a time, and \<^verbatim>\<open>remaining_splits[current_index + 1]\<close> raises when one word is left.
\<close>

fun remaining_timeslots :: "string list \<Rightarrow> py_error + string list" where
  "remaining_timeslots [] = Inr []"
| "remaining_timeslots [w] = Inl IndexError"
| "remaining_timeslots (w1 # w2 # rest) =
     and_then (remaining_timeslots rest)
       (\<lambda>timeslots. Inr (without_final_comma (w1 @ '' '' @ w2) # timeslots))"

definition get_timeslots_for_module :: "catalogue_row list \<Rightarrow> string \<Rightarrow> py_error + string list" where
  "get_timeslots_for_module module_catalogue module =
     (let timeslot_entry =
            (if length (catalogue_rows module_catalogue module) = 0 then None
             else Timetable (hd (catalogue_rows module_catalogue module)))
      in if timeslot_entry = Some ''10am Wed (odd weeks), 10am Fri (odd weeks)''
         then Inr [''10am Wed (odd weeks)'', ''10am Fri (odd weeks)'']
         else case timeslot_entry of
           None \<Rightarrow> Inr []
         | Some entry \<Rightarrow>
             (let timeslot_splits = split entry
              in and_then (index_at timeslot_splits 0) (\<lambda>first_timeslot.
                 if length timeslot_splits > 2 \<and> startswith (timeslot_splits ! 2) ''(''
                 then
                   and_then (index_at timeslot_splits 4) (\<lambda>split_4.
                   and_then (index_at timeslot_splits 5) (\<lambda>split_5.
                   (let second_timeslot = first_timeslot @ '' '' @ butlast split_4;
                        third_timeslot = without_final_comma (first_timeslot @ '' '' @ split_5);
                        first_timeslot' = first_timeslot @ '' '' @ timeslot_splits ! 1 @ '' ''
                             @ timeslot_splits ! 2 @ '' '' @ butlast (timeslot_splits ! 3);
                        remaining_splits =
                          (if length timeslot_splits > 7 then drop 6 timeslot_splits else [])
                    in and_then (remaining_timeslots remaining_splits) (\<lambda>timeslots.
                         Inr ([first_timeslot', second_timeslot, third_timeslot] @ timeslots)))))
                 else
                   and_then (index_at timeslot_splits 1) (\<lambda>split_1.
                   (let first_timeslot' = without_final_comma (first_timeslot @ '' '' @ split_1);
                        remaining_splits =
                          (if length timeslot_splits > 2 then drop 2 timeslot_splits else [])
                    in and_then (remaining_timeslots remaining_splits) (\<lambda>timeslots.
                         Inr (first_timeslot' # timeslots)))))))"

text \<open>
  A dictionary keeps its keys in the order of their first insertion; assigning to a key that
  is present replaces the value where it stands.
\<close>

fun dict_set :: "('k \<times> 'v) list \<Rightarrow> 'k \<Rightarrow> 'v \<Rightarrow> ('k \<times> 'v) list" where
  "dict_set [] k v = [(k, v)]"
| "dict_set ((k', v') # rest) k v =
     (if k' = k then (k, v) # rest else (k', v') # dict_set rest k v)"

text \<open>\<^verbatim>\<open>module_dictionary[module]\<close>, for a module that is a key of the dictionary.\<close>

definition dict_get :: "(string \<times> string list) list \<Rightarrow> string \<Rightarrow> string list" where
  "dict_get module_dictionary module =
     (case map_of module_dictionary module of Some timeslots \<Rightarrow> timeslots | None \<Rightarrow> [])"

text \<open>
  The order in which Python iterates over a \<^verbatim>\<open>set\<close> or a \<^verbatim>\<open>frozenset\<close> is not fixed by the
  language: it depends on the hashes of the elements. The functions below therefore take
  the iteration order as an argument: a function from the elements put into a set, as a
  list, to the list of the elements in the order of iteration. Every such function lists
  each element of the set once.
\<close>

definition set_iteration :: "('a list \<Rightarrow> 'a list) \<Rightarrow> bool" where
  "set_iteration iteration = (\<forall>xs. distinct (iteration xs) \<and> set (iteration xs) = set xs)"

text \<open>
  One warning of \<^verbatim>\<open>find_clashing_timeslots_and_modules\<close>, for one combination of modules.
  \<^verbatim>\<open>set.intersection\<close> is applied to the timeslot sets of the modules of the combination;
  a combination holds the modules of a timeslot that occurs in the dictionary and so is
  not empty.
\<close>

definition clash_warning ::
  "(string list \<Rightarrow> string list) \<Rightarrow> (string \<times> string list) list \<Rightarrow> string \<Rightarrow> string
     \<Rightarrow> string list \<Rightarrow> string" where
  "clash_warning iteration module_dictionary honours_year semester module_combination =
     (let modules = iteration module_combination;
          affected_timeslots =
            iteration
              (filter (\<lambda>timeslot.
                         list_all (\<lambda>module. timeslot \<in> set (dict_get module_dictionary module))
                           modules)
                 (case modules of [] \<Rightarrow> [] | module # _ \<Rightarrow> dict_get module_dictionary module))
      in ''Clash for '' @ honours_year @ '' '' @ semester @ '' between modules ''
           @ join '' and '' modules @ '' at '' @ join '' and '' affected_timeslots)"

text \<open>The inner loop that collects \<^verbatim>\<open>these_clashing_module_codes\<close> for one timeslot.\<close>

definition modules_with_timeslot :: "(string \<times> string list) list \<Rightarrow> string \<Rightarrow> string list" where
  "modules_with_timeslot module_dictionary timeslot =
     map fst (filter (\<lambda>(module, timeslot_list). timeslot \<in> set timeslot_list)
                module_dictionary)"

text \<open>
  \<^verbatim>\<open>find_clashing_timeslots_and_modules\<close>. \<^verbatim>\<open>collections.Counter(xs).items()\<close> lists the
  distinct entries in the order of their first appearance. A combination of modules is sorted and then made
  a \<^verbatim>\<open>frozenset\<close>; the model keeps the sorted list of the module codes, which is the same
  list for two combinations with the same modules. The second iteration order is that of
  the set of the combinations.
\<close>

definition find_clashing_timeslots_and_modules ::
  "(string list \<Rightarrow> string list) \<Rightarrow> (string list list \<Rightarrow> string list list)
     \<Rightarrow> (string \<times> string list) list \<Rightarrow> string \<Rightarrow> string \<Rightarrow> string list" where
  "find_clashing_timeslots_and_modules iteration combinations module_dictionary
       honours_year semester =
     (let all_timeslots = concat (map snd module_dictionary);
          duplicate_entries =
            filter (\<lambda>timeslot. count_list all_timeslots timeslot > 1) (py_unique all_timeslots);
          clashing_module_codes =
            map (\<lambda>timeslot. sort (modules_with_timeslot module_dictionary timeslot))
              duplicate_entries;
          unique_module_clashes = combinations clashing_module_codes
      in map (clash_warning iteration module_dictionary honours_year semester)
           unique_module_clashes)"

text \<open>The loop of \<^verbatim>\<open>find_timetable_clashes\<close> that fills \<^verbatim>\<open>timeslot_dictionary\<close>.\<close>

fun fill_timeslot_dictionary ::
  "catalogue_row list \<Rightarrow> string list \<Rightarrow> (string \<times> string list) list
     \<Rightarrow> py_error + (string \<times> string list) list" where
  "fill_timeslot_dictionary module_catalogue [] timeslot_dictionary = Inr timeslot_dictionary"
| "fill_timeslot_dictionary module_catalogue (module # rest) timeslot_dictionary =
     and_then (get_timeslots_for_module module_catalogue module) (\<lambda>these_timeslots.
       fill_timeslot_dictionary module_catalogue rest
         (dict_set timeslot_dictionary module these_timeslots))"

text \<open>
  The body of the two nested loops, for one honours year and one semester. The two loops
  over \<^verbatim>\<open>reduced_timeslot_dictionary\<close> call \<^verbatim>\<open>entry.replace\<close> and drop what it returns
  (a Python string is immutable), and the detector is called on \<^verbatim>\<open>timeslot_dictionary\<close>
  all three times.
\<close>

definition semester_clashes ::
  "(string list \<Rightarrow> string list) \<Rightarrow> (string list list \<Rightarrow> string list list)
     \<Rightarrow> catalogue_row list \<Rightarrow> choice_row list \<Rightarrow> string \<Rightarrow> string \<Rightarrow> py_error + string list" where
  "semester_clashes iteration combinations module_catalogue choices honours_year semester =
     (let semester_modules =
            map Module_code
              (filter (\<lambda>row. Semester row = semester \<and> Honours_year row = honours_year) choices)
      in and_then (fill_timeslot_dictionary module_catalogue semester_modules [])
           (\<lambda>timeslot_dictionary.
              Inr (find_clashing_timeslots_and_modules iteration combinations
                     timeslot_dictionary honours_year semester
                   @ find_clashing_timeslots_and_modules iteration combinations
                       timeslot_dictionary honours_year semester
                   @ find_clashing_timeslots_and_modules iteration combinations
                       timeslot_dictionary honours_year semester)))"

fun semesters_loop ::
  "(string list \<Rightarrow> string list) \<Rightarrow> (string list list \<Rightarrow> string list list)
     \<Rightarrow> catalogue_row list \<Rightarrow> choice_row list \<Rightarrow> string \<Rightarrow> string list \<Rightarrow> string list
     \<Rightarrow> py_error + string list" where
  "semesters_loop iteration combinations module_catalogue choices honours_year []
       timetable_clashes_list = Inr timetable_clashes_list"
| "semesters_loop iteration combinations module_catalogue choices honours_year (semester # rest)
       timetable_clashes_list =
     and_then
       (semester_clashes iteration combinations module_catalogue choices honours_year semester)
       (\<lambda>clashes. semesters_loop iteration combinations module_catalogue choices honours_year
                     rest (timetable_clashes_list @ clashes))"

fun honours_years_loop ::
  "(string list \<Rightarrow> string list) \<Rightarrow> (string list list \<Rightarrow> string list list)
     \<Rightarrow> catalogue_row list \<Rightarrow> choice_row list \<Rightarrow> string list \<Rightarrow> string list
     \<Rightarrow> py_error + string list" where
  "honours_years_loop iteration combinations module_catalogue choices []
       timetable_clashes_list = Inr timetable_clashes_list"
| "honours_years_loop iteration combinations module_catalogue choices (honours_year # rest)
       timetable_clashes_list =
     and_then
       (semesters_loop iteration combinations module_catalogue choices honours_year
          [''S1'', ''S2''] timetable_clashes_list)
       (\<lambda>clashes. honours_years_loop iteration combinations module_catalogue choices rest
                     clashes)"

text \<open>The list of warnings after \<^verbatim>\<open>list(set(timetable_clashes_list))\<close>.\<close>

definition timetable_clashes_list ::
  "(string list \<Rightarrow> string list) \<Rightarrow> (string list list \<Rightarrow> string list list)
     \<Rightarrow> catalogue_row list \<Rightarrow> Student_view \<Rightarrow> py_error + string list" where
  "timetable_clashes_list iteration combinations module_catalogue student =
     and_then
       (honours_years_loop iteration combinations module_catalogue
          (honours_module_choices student)
          (honours_years_of (honours_module_choices student)) [])
       (\<lambda>clashes. Inr (iteration clashes))"

definition find_timetable_clashes ::
  "(string list \<Rightarrow> string list) \<Rightarrow> (string list list \<Rightarrow> string list list)
     \<Rightarrow> catalogue_row list \<Rightarrow> Student_view \<Rightarrow> py_error + string \<times> string" where
  "find_timetable_clashes iteration combinations module_catalogue student =
     and_then (timetable_clashes_list iteration combinations module_catalogue student)
       (\<lambda>clashes. Inr (merge_list_to_long_string clashes, merge_list_to_long_string []))"

section \<open>Prerequisites and antirequisites\<close>

definition is_upper :: "char \<Rightarrow> bool" where
  "is_upper c = (CHR ''A'' \<le> c \<and> c \<le> CHR ''Z'')"

definition is_digit :: "char \<Rightarrow> bool" where
  "is_digit c = (CHR ''0'' \<le> c \<and> c \<le> CHR ''9'')"

text \<open>A string that the pattern \<^verbatim>\<open>[A-Z]{2}\d{4}\<close> matches as a whole.\<close>

definition is_module_code :: "string \<Rightarrow> bool" where
  "is_module_code s =
     (case s of [a, b, d1, d2, d3, d4] \<Rightarrow>
        is_upper a \<and> is_upper b \<and> is_digit d1 \<and> is_digit d2 \<and> is_digit d3 \<and> is_digit d4
      | _ \<Rightarrow> False)"

text \<open>
  \<^verbatim>\<open>re.findall(r'[A-Z]{2}\d{4}', s)\<close>: the matches from the left; the search goes on after
  the end of a match.
\<close>

fun findall_module_codes :: "string \<Rightarrow> string list" where
  "findall_module_codes [] = []"
| "findall_module_codes (c # cs) =
     (if is_module_code (take 6 (c # cs))
      then take 6 (c # cs) # findall_module_codes (drop 5 cs)
      else findall_module_codes cs)"

text \<open>\<^verbatim>\<open>int(s[-1])\<close>, the number of an honours year such as \<^verbatim>\<open>'Year 2'\<close>.\<close>

definition int_of_last_character :: "string \<Rightarrow> py_error + int" where
  "int_of_last_character s =
     (if s = [] then Inl IndexError
      else if is_digit (last s) then Inr (int (of_char (last s)) - 48)
      else Inl ValueError)"

text \<open>\<^verbatim>\<open>xs.index(x)\<close> for an \<open>x\<close> that is in the list.\<close>

fun first_index :: "'a list \<Rightarrow> 'a \<Rightarrow> nat" where
  "first_index [] x = 0"
| "first_index (y # ys) x = (if y = x then 0 else Suc (first_index ys x))"

text \<open>
  The loop over the rows of \<^verbatim>\<open>honours_module_choices\<close> that collects the modules taken
  before the module, with it, and in the same year. Its state is the three lists
  \<^verbatim>\<open>previously_taken_modules\<close>, \<^verbatim>\<open>simultaneously_taken_modules\<close> and
  \<^verbatim>\<open>modules_taken_in_same_year\<close>.
\<close>

fun taken_modules_loop ::
  "string \<Rightarrow> string \<Rightarrow> int \<Rightarrow> string \<Rightarrow> choice_row list
     \<Rightarrow> string list \<times> string list \<times> string list
     \<Rightarrow> py_error + string list \<times> string list \<times> string list" where
  "taken_modules_loop module year_of_this_module year_number_of_this_module
       semester_of_this_module [] state = Inr state"
| "taken_modules_loop module year_of_this_module year_number_of_this_module
       semester_of_this_module (row # rest) (previously, simultaneously, same_year) =
     and_then (int_of_last_character (Honours_year row)) (\<lambda>year_number.
       (let previously1 =
              (if year_number < year_number_of_this_module
               then previously @ [Module_code row] else previously);
            previously2 =
              (if semester_of_this_module = ''S2'' then
                 (if Honours_year row = year_of_this_module \<and> Semester row = ''S1''
                  then previously1 @ [Module_code row] else previously1)
               else previously1);
            simultaneously1 =
              (if Honours_year row = year_of_this_module
                  \<and> Semester row = semester_of_this_module \<and> Module_code row \<noteq> module
               then simultaneously @ [Module_code row] else simultaneously);
            same_year1 =
              (if Honours_year row = year_of_this_module \<and> Module_code row \<noteq> module
               then same_year @ [Module_code row] else same_year)
        in taken_modules_loop module year_of_this_module year_number_of_this_module
             semester_of_this_module rest (previously2, simultaneously1, same_year1)))"

text \<open>\<^verbatim>\<open>str(b)\<close> for a truth value, as the code writes it into the expression.\<close>

definition truth :: "bool \<Rightarrow> string" where
  "truth b = (if b then ''True'' else ''False'')"

text \<open>
  The body of the loop \<^verbatim>\<open>for module_code in module_codes\<close> in the general case: the
  occurrences of one module code in \<^verbatim>\<open>parsed_prerequisites\<close> are replaced. The replacement
  under the comment \<^verbatim>\<open>the location index is zero\<close> is not in an \<^verbatim>\<open>else\<close> branch and runs
  for every code that is a word of the field.
\<close>

definition substitute_module_code ::
  "string list \<Rightarrow> string list \<Rightarrow> string list \<Rightarrow> string \<Rightarrow> string \<Rightarrow> string" where
  "substitute_module_code prerequisite_list previously_taken_modules
       simultaneously_taken_modules parsed_prerequisites module_code =
     (if module_code \<in> set prerequisite_list then
        (let location_index = first_index prerequisite_list module_code;
             parsed1 =
               (if location_index > 0 then
                  (if prerequisite_list ! (location_index - 1) = ''co-requisite'' then
                     replace
                       (if module_code \<in> set previously_taken_modules
                           \<or> module_code \<in> set simultaneously_taken_modules
                        then replace parsed_prerequisites module_code ''True''
                        else replace parsed_prerequisites module_code ''False'')
                       ''co-requisite '' ''''
                   else
                     (if module_code \<in> set previously_taken_modules
                      then replace parsed_prerequisites module_code ''True''
                      else replace parsed_prerequisites module_code ''False''))
                else parsed_prerequisites)
         in if module_code \<in> set previously_taken_modules
            then replace parsed1 module_code ''True''
            else replace parsed1 module_code ''False'')
      else
        (if module_code \<in> set previously_taken_modules
         then replace parsed_prerequisites module_code ''True''
         else replace parsed_prerequisites module_code ''False''))"

text \<open>The whole loop: \<^verbatim>\<open>parsed_prerequisites\<close> after all module codes are substituted.\<close>

definition parse_prerequisites :: "string \<Rightarrow> string list \<Rightarrow> string list \<Rightarrow> string" where
  "parse_prerequisites prerequisites previously_taken_modules simultaneously_taken_modules =
     foldl (substitute_module_code (split prerequisites) previously_taken_modules
              simultaneously_taken_modules)
       prerequisites (findall_module_codes prerequisites)"

text \<open>The special case of the module \<^verbatim>\<open>MT5867\<close>.\<close>

definition MT5867_findings :: "string list \<Rightarrow> string list" where
  "MT5867_findings previously_taken_modules =
     (let prerequisites = ''two of (MT3505, MT4003, MT4004, MT4512, MT4514, MT4515, MT4526)'';
          list_of_modules =
            [''MT3505'', ''MT4003'', ''MT4004'', ''MT4512'', ''MT4514'', ''MT4515'', ''MT4526''];
          number_of_matching_modules =
            length (filter (\<lambda>module. module \<in> set previously_taken_modules) list_of_modules)
      in if number_of_matching_modules < 2
         then [''Student is missing prerequisite ['' @ prerequisites @ ''] for module MT5867'']
         else [])"

text \<open>
  The findings and recommendations that the prerequisite field of a module gives. \<open>eval\<close>
  stands for the built-in \<^verbatim>\<open>eval\<close> of Python followed by the truth test of \<^verbatim>\<open>if not\<close>: it
  maps a string to the truth value of the expression, or to the exception raised.
\<close>

definition prerequisite_findings ::
  "(string \<Rightarrow> py_error + bool) \<Rightarrow> string \<Rightarrow> string \<Rightarrow> string list \<Rightarrow> string list
     \<Rightarrow> py_error + string list \<times> string list" where
  "prerequisite_findings eval module prerequisites previously_taken_modules
       simultaneously_taken_modules =
     (let prerequisite_list = split prerequisites
      in if length prerequisite_list = 1 then
           (let required_module = prerequisite_list ! 0
            in if required_module \<notin> set previously_taken_modules
               then Inr ([''Student is missing prerequisite '' @ required_module
                            @ '' for module '' @ module], [])
               else Inr ([], []))
         else if length prerequisite_list = 3 then
           (if prerequisites = ''Letter of agreement''
            then Inr ([], [''Module '' @ module @ '' requires a letter of agreement''])
            else Inr ([], []))
         else if prerequisites = ''Students must have gained admission onto an MSc programme''
         then Inr ([''Student cannot take module '' @ module
                      @ '' as this module is only available to Msc students''], [])
         else
           (let parsed_prerequisites =
                  parse_prerequisites prerequisites previously_taken_modules
                    simultaneously_taken_modules
            in and_then (eval parsed_prerequisites) (\<lambda>prerequisites_are_met.
                 if \<not> prerequisites_are_met
                 then Inr ([''Student is missing prerequisite ['' @ prerequisites
                              @ ''] for module '' @ module @ '' (['' @ parsed_prerequisites
                              @ ''])''], [])
                 else Inr ([], []))))"

text \<open>The findings of the antirequisite field.\<close>

definition antirequisite_findings ::
  "string \<Rightarrow> string \<Rightarrow> string list \<Rightarrow> string list \<Rightarrow> string list" where
  "antirequisite_findings module antirequisites previously_taken_modules
       simultaneously_taken_modules =
     map (\<lambda>module_code. ''Student selected antirequisite '' @ module_code
                           @ '' for module '' @ module)
       (filter (\<lambda>module_code. module_code \<in> set previously_taken_modules
                               \<or> module_code \<in> set simultaneously_taken_modules)
          (findall_module_codes antirequisites))"

definition get_missing_prerequisites_for_module ::
  "(string \<Rightarrow> py_error + bool) \<Rightarrow> catalogue_row list \<Rightarrow> string \<Rightarrow> Student_view
     \<Rightarrow> py_error + string \<times> string" where
  "get_missing_prerequisites_for_module eval module_catalogue module student =
     and_then (index_at (filter (\<lambda>row. Module_code row = module)
                           (honours_module_choices student)) 0) (\<lambda>row_of_this_module.
     (let year_of_this_module = Honours_year row_of_this_module
      in and_then (int_of_last_character year_of_this_module) (\<lambda>year_number_of_this_module.
     (let semester_of_this_module = Semester row_of_this_module
      in and_then
           (taken_modules_loop module year_of_this_module year_number_of_this_module
              semester_of_this_module (honours_module_choices student)
              (passed_modules student, [], []))
           (\<lambda>(previously_taken_modules, simultaneously_taken_modules,
               modules_taken_in_same_year).
     (let prerequisites =
            (if length (catalogue_rows module_catalogue module) > 0
             then Prerequisites (hd (catalogue_rows module_catalogue module)) else None)
      in and_then
           (case prerequisites of
              Some prerequisite_string \<Rightarrow>
                (if module \<noteq> ''MT5867''
                 then prerequisite_findings eval module prerequisite_string
                        previously_taken_modules simultaneously_taken_modules
                 else Inr ([], []))
            | None \<Rightarrow> Inr ([], []))
           (\<lambda>(missed_by_field, adviser_recommendations_list).
     (let missed_prerequisites_list1 =
            (if module = ''MT5867''
             then missed_by_field @ MT5867_findings previously_taken_modules
             else missed_by_field);
          antirequisites =
            (if length (catalogue_rows module_catalogue module) > 0
             then Antirequisites (hd (catalogue_rows module_catalogue module)) else None);
          missed_prerequisites_list =
            (case antirequisites of
               Some antirequisite_string \<Rightarrow>
                 missed_prerequisites_list1
                   @ antirequisite_findings module antirequisite_string
                       previously_taken_modules simultaneously_taken_modules
             | None \<Rightarrow> missed_prerequisites_list1)
      in Inr (merge_list_to_long_string missed_prerequisites_list,
              merge_list_to_long_string adviser_recommendations_list)))))))))"

text \<open>The loop of \<^verbatim>\<open>find_missing_prerequisites\<close> over the planned modules.\<close>

fun missing_prerequisites_loop ::
  "(string \<Rightarrow> py_error + bool) \<Rightarrow> catalogue_row list \<Rightarrow> Student_view \<Rightarrow> string list
     \<Rightarrow> string list \<times> string list \<Rightarrow> py_error + string list \<times> string list" where
  "missing_prerequisites_loop eval module_catalogue student [] state = Inr state"
| "missing_prerequisites_loop eval module_catalogue student (module # rest)
       (list_of_missed_prerequisites, list_of_recommendations) =
     and_then (get_missing_prerequisites_for_module eval module_catalogue module student)
       (\<lambda>(these_missing_prerequisites, these_adviser_recommendations).
          missing_prerequisites_loop eval module_catalogue student rest
            (list_of_missed_prerequisites @ [these_missing_prerequisites],
             list_of_recommendations @ [these_adviser_recommendations]))"

definition find_missing_prerequisites ::
  "(string \<Rightarrow> py_error + bool) \<Rightarrow> catalogue_row list \<Rightarrow> Student_view
     \<Rightarrow> py_error + string \<times> string" where
  "find_missing_prerequisites eval module_catalogue student =
     and_then
       (missing_prerequisites_loop eval module_catalogue student
          (planned_honours_modules student) ([], []))
       (\<lambda>(list_of_missed_prerequisites, list_of_recommendations).
          Inr (merge_list_to_long_string list_of_missed_prerequisites,
               merge_list_to_long_string list_of_recommendations))"

section \<open>Modules that are not running\<close>

text \<open>\<^verbatim>\<open>str(n)\<close> and \<^verbatim>\<open>int(s)\<close> for decimal numbers.\<close>

fun digits_of_nat :: "nat \<Rightarrow> string" where
  "digits_of_nat n =
     (if n < 10 then [''0123456789'' ! n]
      else digits_of_nat (n div 10) @ [''0123456789'' ! (n mod 10)])"

definition str_int :: "int \<Rightarrow> string" where
  "str_int i = (if i < 0 then CHR ''-'' # digits_of_nat (nat (- i)) else digits_of_nat (nat i))"

definition strip :: "string \<Rightarrow> string" where
  "strip s = rev (dropWhile is_space (rev (dropWhile is_space s)))"

text \<open>The digits of a number, where \<^verbatim>\<open>int\<close> allows one underscore between two digits.\<close>

fun int_of_digits :: "string \<Rightarrow> int \<Rightarrow> py_error + int" where
  "int_of_digits [] value_so_far = Inl ValueError"
| "int_of_digits [c] value_so_far =
     (if is_digit c then Inr (value_so_far * 10 + (int (of_char c) - 48)) else Inl ValueError)"
| "int_of_digits (c # c' # cs) value_so_far =
     (if is_digit c then
        (if c' = CHR ''_'' then int_of_digits cs (value_so_far * 10 + (int (of_char c) - 48))
         else int_of_digits (c' # cs) (value_so_far * 10 + (int (of_char c) - 48)))
      else Inl ValueError)"

definition py_int :: "string \<Rightarrow> py_error + int" where
  "py_int s =
     (case strip s of
        [] \<Rightarrow> Inl ValueError
      | c # cs \<Rightarrow>
          if c = CHR ''-'' then and_then (int_of_digits cs 0) (\<lambda>n. Inr (- n))
          else if c = CHR ''+'' then int_of_digits cs 0
          else int_of_digits (c # cs) 0)"

text \<open>The academic years in which a module of the catalogue runs.\<close>

definition list_of_running_academic_years :: "string \<Rightarrow> bool \<Rightarrow> py_error + string list" where
  "list_of_running_academic_years module_academic_year module_is_alternating =
     and_then (py_int (take 4 module_academic_year)) (\<lambda>start_year.
       Inr (module_academic_year #
            map (\<lambda>repeat_index.
                   if module_is_alternating
                   then str_int (start_year + 2 * repeat_index) @ ''/''
                          @ str_int (start_year + 2 * repeat_index + 1)
                   else str_int (start_year + repeat_index) @ ''/''
                          @ str_int (start_year + repeat_index + 1))
              [0, 1, 2, 3]))"

text \<open>The loop of \<^verbatim>\<open>find_not_running_modules\<close> over the planned rows.\<close>

fun not_running_loop ::
  "catalogue_row list \<Rightarrow> choice_row list \<Rightarrow> string list \<Rightarrow> py_error + string list" where
  "not_running_loop module_catalogue [] not_running_modules_list = Inr not_running_modules_list"
| "not_running_loop module_catalogue (row # rest) not_running_modules_list =
     (let planned_module_code = Module_code row;
          planned_academic_year = Academic_year row;
          planned_semester = Semester row
      in if length (catalogue_rows module_catalogue planned_module_code) = 0
         then not_running_loop module_catalogue rest not_running_modules_list
         else
           (let module_catalogue_entry = hd (catalogue_rows module_catalogue planned_module_code);
                module_semester = Running_semester module_catalogue_entry;
                list1 =
                  (if planned_semester \<noteq> module_semester \<and> module_semester \<noteq> ''Full Year''
                   then not_running_modules_list
                          @ [''Selected module '' @ planned_module_code @ '' for Semester ''
                               @ planned_semester @ '' but it is actually running in ''
                               @ module_semester]
                   else not_running_modules_list);
                module_academic_year = Year module_catalogue_entry;
                module_is_alternating_entry = Alternate_years module_catalogue_entry
            in and_then
                 (if module_is_alternating_entry = ''Yes'' then Inr True
                  else if module_is_alternating_entry = ''No'' then Inr False
                  else Inl ValueError)
                 (\<lambda>module_is_alternating.
                    and_then
                      (list_of_running_academic_years module_academic_year
                         module_is_alternating)
                      (\<lambda>running_years.
                         not_running_loop module_catalogue rest
                           (if planned_academic_year \<notin> set running_years
                            then list1 @ [''Selected module '' @ planned_module_code
                                            @ '' is not running in academic year ''
                                            @ planned_academic_year]
                            else list1)))))"

definition find_not_running_modules ::
  "catalogue_row list \<Rightarrow> Student_view \<Rightarrow> py_error + string \<times> string" where
  "find_not_running_modules module_catalogue student =
     and_then (not_running_loop module_catalogue (honours_module_choices student) [])
       (\<lambda>not_running_modules_list.
          Inr (merge_list_to_long_string not_running_modules_list,
               merge_list_to_long_string []))"

section \<open>Programme requirements\<close>

text \<open>
  \<^verbatim>\<open>Student.get_number_of_modules_in_list\<close>: the size of the intersection of two sets, which
  is the number of the distinct entries of \<^verbatim>\<open>module_list\<close> that are in
  \<^verbatim>\<open>full_module_list\<close>.
\<close>

definition get_number_of_modules_in_list :: "Student_view \<Rightarrow> string list \<Rightarrow> nat" where
  "get_number_of_modules_in_list student module_list =
     length (filter (\<lambda>module. module \<in> set (full_module_list student)) (remdups module_list))"

text \<open>The sanity check for modules that are selected twice.\<close>

definition duplicate_selection_findings :: "Student_view \<Rightarrow> string list" where
  "duplicate_selection_findings student =
     (if length (remdups (full_module_list student)) \<noteq> length (full_module_list student) then
        (let duplicate_entries =
               filter (\<lambda>module. count_list (full_module_list student) module > 1)
                 (py_unique (full_module_list student))
         in [''Student selected the following modules twice: ''
               @ concat (map (\<lambda>entry. if entry \<noteq> last duplicate_entries
                                        then entry @ '', '' else entry)
                           duplicate_entries)])
      else [])"

definition unknown_module_findings :: "catalogue_row list \<Rightarrow> Student_view \<Rightarrow> string list" where
  "unknown_module_findings module_catalogue student =
     map (\<lambda>module. ''Student is planning to take '' @ module @ '' (which does not exist)'')
       (filter (\<lambda>module. startswith module ''MT''
                          \<and> module \<notin> set (map Code module_catalogue))
          (planned_honours_modules student))"

text \<open>The check of the final year project, with \<^verbatim>\<open>.iloc[0]\<close> on the rows of the project.\<close>

definition final_year_project_findings :: "Student_view \<Rightarrow> py_error + string list" where
  "final_year_project_findings student =
     (let list_of_project_codes = [''MT4598'', ''MT4599''];
          number_final_year_projects =
            get_number_of_modules_in_list student list_of_project_codes
      in if number_final_year_projects \<noteq> 1
         then Inr [''Student is not taking an allowed final year project'']
         else
           and_then
             (if ''MT4598'' \<in> set (full_module_list student)
              then index_at (filter (\<lambda>row. Module_code row = ''MT4598'')
                               (honours_module_choices student)) 0
              else index_at (filter (\<lambda>row. Module_code row = ''MT4599'')
                               (honours_module_choices student)) 0)
             (\<lambda>row. (let this_year = Honours_year row
                      in if this_year \<noteq> ''Year 2''
                         then Inr [''Student is not taking their final year project in their final year.'']
                         else Inr [])))"

definition is_non_maths_module :: "string \<Rightarrow> bool" where
  "is_non_maths_module module =
     (\<not> contains module ''MT2'' \<and> \<not> contains module ''MT3''
      \<and> \<not> contains module ''MT4'' \<and> \<not> contains module ''MT5'')"

text \<open>The branch of the programme \<^verbatim>\<open>Bachelor of Science (Honours) Mathematics\<close>.\<close>

definition mathematics_requirements ::
  "Student_view \<Rightarrow> py_error + string list \<times> string list" where
  "mathematics_requirements student =
     (let (missed_requirement, adviser_recommendation) =
            check_for_120_credits_each_year student;
          list_of_MT350X_modules =
            [''MT3501'', ''MT3502'', ''MT3503'', ''MT3504'', ''MT3505'', ''MT3506'', ''MT3507'',
             ''MT3508''];
          number_of_MT350X_modules =
            get_number_of_modules_in_list student list_of_MT350X_modules;
          missed1 =
            (if number_of_MT350X_modules < 4
             then [''Student is only taking '' @ str_int (int number_of_MT350X_modules)
                     @ ''out of MT3501-MT3508'']
             else []);
          list_of_computing_modules = [''MT3510'', ''MT4111'', ''MT4112'', ''MT4113''];
          number_of_computing_modules =
            get_number_of_modules_in_list student list_of_computing_modules;
          missed2 =
            (if number_of_computing_modules = 0
             then [''Student is not taking a computing module''] else [])
      in and_then (final_year_project_findings student) (\<lambda>missed3.
         (let unallowed_modules = [''MT4794'', ''MT4795'', ''MT4796'', ''MT4797''];
              number_of_unallowed_modules =
                get_number_of_modules_in_list student unallowed_modules;
              missed4 =
                (if number_of_unallowed_modules > 0
                 then [''Student is taking a module in MT4794-MT4797''] else []);
              list_of_all_non_maths_modules =
                filter is_non_maths_module (all_honours_modules student);
              missed5 =
                (if length list_of_all_non_maths_modules > 2
                 then [''Student is taking more than 2 modules as dip-down or dip-across, which is not allowed.'']
                 else []);
              list_of_4000_and_5000_modules =
                filter (\<lambda>module. contains module ''MT4'' \<or> contains module ''MT5'')
                  (all_honours_modules student);
              missed6 =
                (if length list_of_4000_and_5000_modules < 6
                 then [''Student is not planning to take enough credits at 4000 level or above'']
                 else []);
              list_of_planned_5000_level_modules =
                filter (\<lambda>module. contains module ''MT5'') (planned_honours_modules student);
              advice1 =
                (if length list_of_planned_5000_level_modules > 0
                 then [''Student is planning to take 5000 level modules (which will require permission)'']
                 else []);
              list_of_2000_level_modules =
                filter (\<lambda>module. contains module ''MT2'') (planned_honours_modules student);
              advice2 =
                (if length list_of_2000_level_modules > 0
                 then [''Student is planning to take 2000 level modules, (which will require permission)'']
                 else []);
              list_of_planned_non_maths_modules =
                filter is_non_maths_module (planned_honours_modules student);
              advice3 =
                (if length list_of_planned_non_maths_modules > 0
                 then [''Student is planning to take non-MT modules, which requires permission'']
                 else [])
          in Inr ([missed_requirement] @ missed1 @ missed2 @ missed3 @ missed4 @ missed5
                    @ missed6,
                  [adviser_recommendation] @ advice1 @ advice2 @ advice3))))"

definition find_missing_programme_requirements ::
  "catalogue_row list \<Rightarrow> Student_view \<Rightarrow> py_error + string \<times> string" where
  "find_missing_programme_requirements module_catalogue student =
     (let list_of_missed_requirements =
            duplicate_selection_findings student
              @ unknown_module_findings module_catalogue student
      in and_then
           (if programme_name student = ''Bachelor of Science (Honours) Mathematics''
            then mathematics_requirements student
            else Inr ([''No programme requirements available''], []))
           (\<lambda>(missed, list_of_adviser_recommendations).
              Inr (merge_list_to_long_string (list_of_missed_requirements @ missed),
                   merge_list_to_long_string list_of_adviser_recommendations)))"

section \<open>Processing a student\<close>

text \<open>One row of the summary data frame, with the nine columns of the source.\<close>

datatype summary_data =
  Summary_data (Student_ID: int) (Name: string) (Programme: string) (Hon_year: int)
    (Unmet_programme_requirements: string) (Missing_prerequisites: string)
    (Modules_not_running: string) (Timetable_clashes: string)
    (Adviser_recommendations: string)

text \<open>
  The part of \<^verbatim>\<open>process_form_file\<close> that follows \<^verbatim>\<open>student = student_or_warning\<close>: the four
  checks in the order of the source, then the summary row. Printing is left out.
\<close>

definition process_student ::
  "(string \<Rightarrow> py_error + bool) \<Rightarrow> (string list \<Rightarrow> string list)
     \<Rightarrow> (string list list \<Rightarrow> string list list) \<Rightarrow> catalogue_row list \<Rightarrow> Student_view
     \<Rightarrow> py_error + summary_data" where
  "process_student eval iteration combinations module_catalogue student =
     and_then (find_missing_programme_requirements module_catalogue student)
       (\<lambda>(missed_programme_requirements, programme_adviser_recommendations).
     and_then (find_missing_prerequisites eval module_catalogue student)
       (\<lambda>(missed_prerequisites, prerequisite_adviser_recommendations).
     and_then (find_not_running_modules module_catalogue student)
       (\<lambda>(not_running_modules, scheduling_adviser_recommendations).
     and_then (find_timetable_clashes iteration combinations module_catalogue student)
       (\<lambda>(timetable_clashes, timetable_adviser_recommendations).
     (let adviser_recommendations =
            merge_list_to_long_string
              [programme_adviser_recommendations, prerequisite_adviser_recommendations,
               scheduling_adviser_recommendations, timetable_adviser_recommendations]
      in Inr (Summary_data (student_id student) (full_name student) (programme_name student)
                (current_honours_year student) missed_programme_requirements
                missed_prerequisites not_running_modules timetable_clashes
                adviser_recommendations))))))"

section \<open>Evaluating a substituted expression\<close>

text \<open>
  An evaluator for the expressions that the substitution is meant to produce: the operands
  \<^verbatim>\<open>True\<close> and \<^verbatim>\<open>False\<close>, joined by \<^verbatim>\<open>and\<close>, \<^verbatim>\<open>or\<close> and \<^verbatim>\<open>not\<close>, with parentheses around
  an expression. On these it gives the value that Python gives, with \<^verbatim>\<open>not\<close> binding
  tighter than \<^verbatim>\<open>and\<close>, and \<^verbatim>\<open>and\<close> tighter than \<^verbatim>\<open>or\<close>. It is the instance of the
  argument \<open>eval\<close> used where an expression is evaluated on a concrete input; every other
  string is outside what it models, and it answers \<open>SyntaxError\<close> there.
\<close>

datatype token = T_True | T_False | T_and | T_or | T_not | T_open | T_close

definition is_word_character :: "char \<Rightarrow> bool" where
  "is_word_character c =
     (is_upper c \<or> is_digit c \<or> (CHR ''a'' \<le> c \<and> c \<le> CHR ''z'') \<or> c = CHR ''_'')"

definition token_of_word :: "string \<Rightarrow> py_error + token list" where
  "token_of_word word =
     (if word = [] then Inr []
      else if word = ''True'' then Inr [T_True]
      else if word = ''False'' then Inr [T_False]
      else if word = ''and'' then Inr [T_and]
      else if word = ''or'' then Inr [T_or]
      else if word = ''not'' then Inr [T_not]
      else Inl SyntaxError)"

fun tokens_from :: "string \<Rightarrow> string \<Rightarrow> py_error + token list" where
  "tokens_from word [] = token_of_word word"
| "tokens_from word (c # cs) =
     (if is_word_character c then tokens_from (word @ [c]) cs
      else and_then (token_of_word word) (\<lambda>before.
        and_then (tokens_from [] cs) (\<lambda>after.
          if c = CHR ''('' then Inr (before @ T_open # after)
          else if c = CHR '')'' then Inr (before @ T_close # after)
          else if is_space c then Inr (before @ after)
          else Inl SyntaxError)))"

text \<open>
  The tokens are read from the left. A frame holds, for one open parenthesis, the value of
  the disjuncts read so far, the value of the conjuncts of the current disjunct, and
  whether the next operand is negated; the flag says whether an operand is expected.
\<close>

fun operand :: "bool \<Rightarrow> (bool \<times> bool \<times> bool) list \<Rightarrow> (bool \<times> bool \<times> bool) list" where
  "operand v [] = []"
| "operand v ((disjuncts, conjuncts, negated) # frames) =
     (disjuncts, conjuncts \<and> (v \<noteq> negated), False) # frames"

fun evaluate_tokens :: "token list \<Rightarrow> (bool \<times> bool \<times> bool) list \<Rightarrow> bool \<Rightarrow> py_error + bool" where
  "evaluate_tokens [] frames expected =
     (case frames of
        [(disjuncts, conjuncts, negated)] \<Rightarrow>
          if expected then Inl SyntaxError else Inr (disjuncts \<or> conjuncts)
      | _ \<Rightarrow> Inl SyntaxError)"
| "evaluate_tokens (T_True # rest) frames expected =
     (if expected then evaluate_tokens rest (operand True frames) False else Inl SyntaxError)"
| "evaluate_tokens (T_False # rest) frames expected =
     (if expected then evaluate_tokens rest (operand False frames) False else Inl SyntaxError)"
| "evaluate_tokens (T_and # rest) frames expected =
     (if expected then Inl SyntaxError else evaluate_tokens rest frames True)"
| "evaluate_tokens (T_or # rest) frames expected =
     (if expected then Inl SyntaxError
      else case frames of
        [] \<Rightarrow> Inl SyntaxError
      | (disjuncts, conjuncts, negated) # below \<Rightarrow>
          evaluate_tokens rest ((disjuncts \<or> conjuncts, True, False) # below) True)"
| "evaluate_tokens (T_not # rest) frames expected =
     (if expected then
        (case frames of
           [] \<Rightarrow> Inl SyntaxError
         | (disjuncts, conjuncts, negated) # below \<Rightarrow>
             evaluate_tokens rest ((disjuncts, conjuncts, \<not> negated) # below) True)
      else Inl SyntaxError)"
| "evaluate_tokens (T_open # rest) frames expected =
     (if expected then evaluate_tokens rest ((False, True, False) # frames) True
      else Inl SyntaxError)"
| "evaluate_tokens (T_close # rest) frames expected =
     (if expected then Inl SyntaxError
      else case frames of
        (disjuncts, conjuncts, negated) # below # frames' \<Rightarrow>
          evaluate_tokens rest (operand (disjuncts \<or> conjuncts) (below # frames')) False
      | _ \<Rightarrow> Inl SyntaxError)"

definition boolean_eval :: "string \<Rightarrow> py_error + bool" where
  "boolean_eval s =
     and_then (tokens_from [] s) (\<lambda>tokens. evaluate_tokens tokens [(False, True, False)] True)"

section \<open>Reading a form\<close>

text \<open>
  The value of a cell of the form: an integer, a string, or nothing. Of the sheet the code
  reads the cell \<^verbatim>\<open>D5\<close> and the cells of the column \<^verbatim>\<open>B\<close>, from row 1 downwards; a cell
  below the last row has no value.
\<close>

datatype cell = Int_cell int | Str_cell string | Empty_cell

datatype sheet = Sheet (D5: cell) (column_B: "cell list")

text \<open>One row of a table of student records, with the columns that the code reads.\<close>

datatype data_row =
  Data_row (col_Student_ID: int) (col_Year: string) (col_Assessment_result: string)
    (col_Module_code: string) (col_Programme_name: string) (col_Given_names: string)
    (col_Family_name: string) (col_Email: string)

text \<open>What \<^verbatim>\<open>parse_excel_form\<close> returns: a warning string, or a student and the store.\<close>

datatype student_or_warning = Warning string | A_student store Student_object

definition is_header_cell :: "string \<Rightarrow> cell \<Rightarrow> bool" where
  "is_header_cell header c = (case c of Str_cell v \<Rightarrow> contains v header | _ \<Rightarrow> False)"

definition module_code_of_cell :: "cell \<Rightarrow> string" where
  "module_code_of_cell c =
     (case c of Int_cell n \<Rightarrow> strip (''MT'' @ str_int n) | Str_cell v \<Rightarrow> strip v
      | Empty_cell \<Rightarrow> [])"

text \<open>
  \<^verbatim>\<open>get_modules_under_header\<close>: the last row whose cell in column \<^verbatim>\<open>B\<close> holds the header
  sets \<^verbatim>\<open>row_number\<close>; without such a row \<^verbatim>\<open>row_number\<close> is not bound. The modules
  are read two rows below, down to the first cell without a value.
\<close>

definition get_modules_under_header :: "sheet \<Rightarrow> string \<Rightarrow> py_error + string list" where
  "get_modules_under_header a_sheet header =
     (case filter (\<lambda>i. is_header_cell header (column_B a_sheet ! i))
             [0 ..< length (column_B a_sheet)] of
        [] \<Rightarrow> Inl UnboundLocalError
      | i # matches \<Rightarrow>
          Inr (map module_code_of_cell
                 (takeWhile (\<lambda>c. c \<noteq> Empty_cell)
                    (drop (last (i # matches) + 2) (column_B a_sheet)))))"

text \<open>The rows of the table for one honours year and one semester.\<close>

definition semester_rows :: "sheet \<Rightarrow> int \<Rightarrow> int \<Rightarrow> py_error + choice_row list" where
  "semester_rows a_sheet remaining_honours_year semester_number =
     (let year_key = ''Year '' @ str_int remaining_honours_year;
          calendar_year = 22 + remaining_honours_year;
          calendar_year_string =
            ''20'' @ str_int calendar_year @ ''/20'' @ str_int (calendar_year + 1)
      in and_then
           (get_modules_under_header a_sheet
              (year_key @ '' of Honours: Semester '' @ str_int semester_number))
           (\<lambda>semester_modules.
              Inr (map (\<lambda>module. \<lparr>Honours_year = year_key,
                                     Academic_year = calendar_year_string,
                                     Semester = ''S'' @ str_int semester_number,
                                     Module_code = module\<rparr>)
                     semester_modules)))"

fun module_table_loop ::
  "sheet \<Rightarrow> (int \<times> int) list \<Rightarrow> choice_row list \<Rightarrow> py_error + choice_row list" where
  "module_table_loop a_sheet [] module_table = Inr module_table"
| "module_table_loop a_sheet ((remaining_honours_year, semester_number) # rest) module_table =
     and_then (semester_rows a_sheet remaining_honours_year semester_number) (\<lambda>rows.
       module_table_loop a_sheet rest (module_table @ rows))"

text \<open>The passed modules of the honours years before the current one.\<close>

definition passed_modules_of_year :: "data_row list \<Rightarrow> int \<Rightarrow> int \<Rightarrow> string list" where
  "passed_modules_of_year data_base_of_passed_modules current previous_honours_year =
     (let year_difference = current - previous_honours_year;
          year_number = 23 - year_difference;
          calendar_year_string = ''20'' @ str_int year_number @ ''/20'' @ str_int (year_number + 1)
      in map col_Module_code
           (filter (\<lambda>row. col_Year row = calendar_year_string) data_base_of_passed_modules))"

text \<open>\<^verbatim>\<open>Series.str.slice(0,4).astype('int')\<close> on the years of the records.\<close>

fun years_of_rows :: "data_row list \<Rightarrow> py_error + int list" where
  "years_of_rows [] = Inr []"
| "years_of_rows (row # rest) =
     and_then (py_int (take 4 (col_Year row))) (\<lambda>y.
       and_then (years_of_rows rest) (\<lambda>ys. Inr (y # ys)))"

text \<open>The programmes that \<^verbatim>\<open>parse_excel_form\<close> knows, with their years.\<close>

definition programme_years :: "string \<Rightarrow> (int \<times> int) option" where
  "programme_years the_programme_name =
     (if contains the_programme_name ''Bachelor of Science'' then Some (4, 2)
      else if contains the_programme_name ''Master in Mathematics'' then Some (5, 3)
      else if contains the_programme_name ''Master of Arts (Honours)'' then Some (4, 2)
      else if ''Master in Chemistry (Honours) Chemistry with Mathematics'' = the_programme_name
      then Some (5, 3)
      else if ''Master in Physics (Honours) Mathematics and Theoretical Physics''
                = the_programme_name
      then Some (5, 3)
      else None)"

text \<open>
  The records of the student: the rows with the student's ID in the first table that has
  such a row.
\<close>

definition student_records :: "data_row list list \<Rightarrow> int \<Rightarrow> data_row list option" where
  "student_records data_bases the_student_id =
     (case find (\<lambda>this_data_base. the_student_id \<in> set (map col_Student_ID this_data_base))
             data_bases of
        None \<Rightarrow> None
      | Some this_data_base \<Rightarrow>
          Some (filter (\<lambda>row. col_Student_ID row = the_student_id) this_data_base))"

text \<open>\<^verbatim>\<open>assert(len(entries) == 1)\<close>\<close>

definition assert_one :: "string list \<Rightarrow> py_error + string" where
  "assert_one entries = (if length entries = 1 then Inr (entries ! 0) else Inl AssertionError)"

text \<open>
  \<^verbatim>\<open>parse_excel_form\<close>, from the sheet of the form and the tables of student records that
  the code reads from the files. The lists \<^verbatim>\<open>passed_modules\<close> and
  \<^verbatim>\<open>passed_honours_modules\<close> are the first two list objects of the store.
\<close>

definition parse_excel_form :: "sheet \<Rightarrow> data_row list list \<Rightarrow> py_error + student_or_warning" where
  "parse_excel_form a_sheet data_bases =
     (case D5 a_sheet of
        Int_cell a_student_id \<Rightarrow>
          (case student_records data_bases a_student_id of
             None \<Rightarrow> Inr (Warning (''contains invalid student ID '' @ str_int a_student_id))
           | Some student_data_base \<Rightarrow>
               and_then (years_of_rows student_data_base) (\<lambda>data_of_module_years.
               (let earliest_year = fold min data_of_module_years (hd data_of_module_years);
                    a_year_of_study = 2023 - earliest_year + 1;
                    data_base_of_passed_modules =
                      filter (\<lambda>row. col_Assessment_result row = ''P'') student_data_base;
                    the_passed_modules = map col_Module_code data_base_of_passed_modules
                in and_then (assert_one (py_unique (map col_Programme_name student_data_base)))
                     (\<lambda>a_programme_name.
                   and_then (assert_one (py_unique (map col_Given_names student_data_base)))
                     (\<lambda>given_name.
                   and_then (assert_one (py_unique (map col_Family_name student_data_base)))
                     (\<lambda>family_name.
                   and_then (assert_one (py_unique (map col_Email student_data_base)))
                     (\<lambda>an_email.
                   (case programme_years a_programme_name of
                      None \<Rightarrow>
                        Inr (Warning (''Do not recognise student programme for parsing: ''
                                        @ a_programme_name))
                    | Some (programme_years_in_all, the_expected_honours_years) \<Rightarrow>
                        (let no_of_programme_years =
                               (if ''EXA120'' \<in> set (map col_Module_code student_data_base)
                                then programme_years_in_all - 1 else programme_years_in_all);
                             no_subhonours_years =
                               no_of_programme_years - the_expected_honours_years;
                             a_current_honours_year = a_year_of_study - no_subhonours_years;
                             the_passed_honours_modules =
                               concat (map (passed_modules_of_year data_base_of_passed_modules
                                              a_current_honours_year)
                                         [1 .. a_current_honours_year - 1])
                         in and_then
                              (module_table_loop a_sheet
                                 (concat (map (\<lambda>remaining_honours_year.
                                                 [(remaining_honours_year, 1),
                                                  (remaining_honours_year, 2)])
                                            [a_current_honours_year .. the_expected_honours_years]))
                                 [])
                              (\<lambda>the_honours_module_choices.
                                 (let (st, this_student) =
                                        Student_init [the_passed_modules, the_passed_honours_modules]
                                          a_student_id (given_name @ '' '' @ family_name) an_email
                                          a_programme_name a_year_of_study
                                          the_expected_honours_years a_current_honours_year 0 1
                                          the_honours_module_choices
                                  in Inr (A_student st this_student))))))))))))
      | _ \<Rightarrow> Inr (Warning ''No student ID''))"

section \<open>Processing a form\<close>

text \<open>The summary row of a form that could not be read.\<close>

definition sentinel_summary :: "string \<Rightarrow> summary_data" where
  "sentinel_summary warning_message =
     Summary_data 0 ''Unknown'' ''Unknown'' 0 warning_message '' '' '' '' '' '' '' ''"

text \<open>
  \<^verbatim>\<open>process_form_file\<close>. A warning string of another form than the three that the chain of
  \<^verbatim>\<open>if\<close> and \<^verbatim>\<open>elif\<close> knows leaves \<^verbatim>\<open>warning_message\<close> without a value.
\<close>

definition process_form_file ::
  "(string \<Rightarrow> py_error + bool) \<Rightarrow> (string list \<Rightarrow> string list)
     \<Rightarrow> (string list list \<Rightarrow> string list list) \<Rightarrow> catalogue_row list \<Rightarrow> string \<Rightarrow> sheet
     \<Rightarrow> data_row list list \<Rightarrow> py_error + summary_data" where
  "process_form_file eval iteration combinations module_catalogue filename a_sheet data_bases =
     and_then (parse_excel_form a_sheet data_bases) (\<lambda>result.
       case result of
         Warning a_warning \<Rightarrow>
           (if a_warning = ''No student ID'' then
              Inr (sentinel_summary (''Could not process '' @ filename
                     @ ''. The file does not contain a valid student ID.''))
            else if startswith a_warning ''contains invalid student ID'' then
              Inr (sentinel_summary (''Could not process '' @ filename @ ''. The file ''
                     @ a_warning))
            else if startswith a_warning ''Do not recognise student programme for parsing:'' then
              Inr (sentinel_summary (''Could not process '' @ filename @ ''. '' @ a_warning))
            else Inl UnboundLocalError)
       | A_student st this_student \<Rightarrow>
           process_student eval iteration combinations module_catalogue
             (read_student st this_student))"

section \<open>Example data\<close>

text \<open>
  A catalogue and a student on which the functions above are evaluated. The entries of the
  catalogue are written in the forms that the code reads: a prerequisite field is one module
  code or an expression over module codes, a timetable field lists timeslots separated by
  commas.
\<close>

definition catalogue_entry ::
  "string \<Rightarrow> string \<Rightarrow> string option \<Rightarrow> string option \<Rightarrow> string option \<Rightarrow> catalogue_row" where
  "catalogue_entry code semester prerequisites antirequisites timetable =
     \<lparr>Code = code, Running_semester = semester, Year = ''2023/2024'', Alternate_years = ''No'',
      Prerequisites = prerequisites, Antirequisites = antirequisites, Timetable = timetable\<rparr>"

definition example_catalogue :: "catalogue_row list" where
  "example_catalogue =
     [catalogue_entry ''MT3501'' ''S1'' (Some ''MT2501'') None (Some ''9am Mon''),
      catalogue_entry ''MT3502'' ''S1'' None (Some ''MT2001'') (Some ''10am Mon''),
      catalogue_entry ''MT3503'' ''S1'' None None (Some ''11am Mon, 11am Thu''),
      catalogue_entry ''MT3504'' ''S1'' None None (Some ''12noon Mon''),
      catalogue_entry ''MT3505'' ''S2'' None None (Some ''9am Mon''),
      catalogue_entry ''MT3506'' ''S2'' None None (Some ''10am Mon''),
      catalogue_entry ''MT3507'' ''S2'' None None (Some ''11am Mon''),
      catalogue_entry ''MT3510'' ''S2'' None None (Some ''12noon Mon''),
      catalogue_entry ''MT4003'' ''S1'' (Some ''MT3505'') None (Some ''9am Tue''),
      catalogue_entry ''MT4004'' ''S1'' (Some ''MT2501 or (MT3501 and MT3502)'') None
        (Some ''10am Tue''),
      catalogue_entry ''MT4111'' ''S1'' None None (Some ''11am Tue''),
      catalogue_entry ''MT4112'' ''S1'' None None
        (Some ''10am Wed (odd weeks), 10am Fri (odd weeks)''),
      catalogue_entry ''MT4512'' ''S2'' (Some ''MT3503 and co-requisite MT4514'') None
        (Some ''9am Tue''),
      catalogue_entry ''MT4514'' ''S2'' None None (Some ''10am Tue''),
      catalogue_entry ''MT4515'' ''S2'' None None (Some ''11am Tue''),
      catalogue_entry ''MT4599'' ''Full Year'' None None None]"

definition planned :: "string \<Rightarrow> string \<Rightarrow> string \<Rightarrow> string \<Rightarrow> choice_row" where
  "planned honours_year academic_year semester code =
     \<lparr>Honours_year = honours_year, Academic_year = academic_year, Semester = semester,
      Module_code = code\<rparr>"

definition first_year_choices :: "choice_row list" where
  "first_year_choices =
     map (planned ''Year 1'' ''2023/2024'' ''S1'') [''MT3501'', ''MT3502'', ''MT3503'', ''MT3504'']
     @ map (planned ''Year 1'' ''2023/2024'' ''S2'') [''MT3505'', ''MT3506'', ''MT3507'', ''MT3510'']"

definition second_year_choices :: "choice_row list" where
  "second_year_choices =
     map (planned ''Year 2'' ''2024/2025'' ''S1'') [''MT4003'', ''MT4004'', ''MT4111'', ''MT4112'']
     @ map (planned ''Year 2'' ''2024/2025'' ''S2'') [''MT4512'', ''MT4514'', ''MT4515'', ''MT4599'']"

definition example_choices :: "choice_row list" where
  "example_choices = first_year_choices @ second_year_choices"

text \<open>
  A student of the programme \<^verbatim>\<open>Bachelor of Science (Honours) Mathematics\<close> in the first of
  two honours years, who has passed \<^verbatim>\<open>MT2501\<close> and \<^verbatim>\<open>MT2502\<close>, with the given choices.
\<close>

definition example_student_of :: "choice_row list \<Rightarrow> Student_view" where
  "example_student_of choices =
     (let (st, student) =
            Student_init [[''MT2501'', ''MT2502''], []] 190000001 ''Ada Lovelace''
              ''al1@example.org'' ''Bachelor of Science (Honours) Mathematics'' 3 2 1 0 1
              choices
      in read_student st student)"

definition example_student :: Student_view where
  "example_student = example_student_of example_choices"

text \<open>A module whose prerequisite field is a conjunction of two module codes.\<close>

definition compound_catalogue :: "catalogue_row list" where
  "compound_catalogue =
     [catalogue_entry ''MT3501'' ''S1'' (Some ''MT1001 and MT1002'') None (Some ''9am Mon'')]"

definition compound_student :: Student_view where
  "compound_student = example_student_of [planned ''Year 1'' ''2023/2024'' ''S1'' ''MT3501'']"

text \<open>Three modules of one semester, two of which meet at \<^verbatim>\<open>10am Mon\<close>.\<close>

definition semester_choices :: "string list \<Rightarrow> choice_row list" where
  "semester_choices modules = map (planned ''Year 1'' ''2023/2024'' ''S1'') modules"

definition clash_catalogue :: "catalogue_row list" where
  "clash_catalogue =
     [catalogue_entry ''MT3501'' ''S1'' None None (Some ''10am Mon, 2pm Wed''),
      catalogue_entry ''MT3502'' ''S1'' None None (Some ''10am Mon''),
      catalogue_entry ''MT3503'' ''S1'' None None (Some ''3pm Thu'')]"

definition clash_student :: Student_view where
  "clash_student = example_student_of (semester_choices [''MT3501'', ''MT3502'', ''MT3503''])"

text \<open>The same, with a timetable field whose later timeslots are in odd weeks only.\<close>

definition repeated_catalogue :: "catalogue_row list" where
  "repeated_catalogue =
     [catalogue_entry ''MT3501'' ''S1'' None None
        (Some ''10am Mon, 2pm Wed (odd weeks), 2pm Fri (odd weeks)''),
      catalogue_entry ''MT3502'' ''S1'' None None (Some ''10am Mon'')]"

definition repeated_student :: Student_view where
  "repeated_student = example_student_of (semester_choices [''MT3501'', ''MT3502''])"

text \<open>
  Two modules that meet at 10am on Monday, one in odd weeks and one in even weeks, and on
  two further days each.
\<close>

definition odd_even_catalogue :: "catalogue_row list" where
  "odd_even_catalogue =
     [catalogue_entry ''MT3501'' ''S1'' None None (Some ''10am Mon (odd weeks), Tue, Wed''),
      catalogue_entry ''MT3502'' ''S1'' None None (Some ''10am Mon (even weeks), Thu, Fri'')]"

definition odd_even_student :: Student_view where
  "odd_even_student = example_student_of (semester_choices [''MT3501'', ''MT3502''])"

text \<open>Forms and tables of student records.\<close>

definition record_of :: "string \<Rightarrow> string \<Rightarrow> string \<Rightarrow> data_row" where
  "record_of a_programme an_email code =
     Data_row 190000001 ''2021/2022'' ''P'' code a_programme ''Ada'' ''Lovelace'' an_email"

definition unknown_programme_records :: "data_row list list" where
  "unknown_programme_records =
     [[record_of ''Graduate Diploma Mathematics'' ''al1@example.org'' ''MT1002'',
       record_of ''Graduate Diploma Mathematics'' ''al1@example.org'' ''MT2501'']]"

definition two_email_records :: "data_row list list" where
  "two_email_records =
     [[record_of ''Graduate Diploma Mathematics'' ''al1@example.org'' ''MT1002'',
       record_of ''Graduate Diploma Mathematics'' ''ada@example.org'' ''MT2501'']]"

definition example_form :: sheet where
  "example_form = Sheet (Int_cell 190000001) []"

section \<open>Auxiliary definitions\<close>

text \<open>Names for parts of the functions above, used in the proofs.\<close>

text \<open>
  A module code is qualified as a co-requisite when it is a word of the prerequisite field
  and the word before its first occurrence as a word is \<^verbatim>\<open>co-requisite\<close>.
\<close>

definition qualified_as_co_requisite :: "string list \<Rightarrow> string \<Rightarrow> bool" where
  "qualified_as_co_requisite prerequisite_list module_code =
     (module_code \<in> set prerequisite_list
      \<and> first_index prerequisite_list module_code > 0
      \<and> prerequisite_list ! (first_index prerequisite_list module_code - 1) = ''co-requisite'')"

definition credit_findings_for :: "choice_row list \<Rightarrow> string \<Rightarrow> string list" where
  "credit_findings_for choices honours_year =
     (if (honours_year = ''Year 1'' \<or> honours_year = ''Year 2'')
         \<and> length (rows_of_year choices honours_year) \<noteq> 8
      then [credit_finding honours_year] else [])
     @ (if honours_year = ''Year 3'' \<and> length (rows_of_year choices honours_year) \<noteq> 7
        then [credit_finding honours_year] else [])"

definition split_step :: "int \<Rightarrow> choice_row list \<Rightarrow> string \<Rightarrow> string list \<Rightarrow> string list" where
  "split_step expected db hy recs = split_loop expected db [hy] recs"

definition holders :: "(string \<times> string list) list \<Rightarrow> string \<Rightarrow> (string \<times> string list) list" where
  "holders d t = filter (\<lambda>(module, timeslot_list). t \<in> set timeslot_list) d"

definition two_module_warning :: "string \<Rightarrow> string \<Rightarrow> string \<Rightarrow> string \<Rightarrow> string \<Rightarrow> string" where
  "two_module_warning honours_year semester first_module second_module timeslot =
     ''Clash for '' @ honours_year @ '' '' @ semester @ '' between modules '' @ first_module
       @ '' and '' @ second_module @ '' at '' @ timeslot"

section \<open>Properties of the report assembly\<close>

lemma joined_Cons: "joined (x # ys) = x @ concat (map (\<lambda>y. '', '' @ y) ys)"
  by (induction ys arbitrary: x) simp_all

lemma merge_loop_found:
  "merge_loop a True xs = a @ concat (map (\<lambda>y. '', '' @ y) (non_None_entries xs))"
  by (induction xs arbitrary: a) (simp_all add: non_None_entries_def)

lemma merge_loop_fresh: "merge_loop [] False xs = joined (non_None_entries xs)"
proof (induction xs)
  case Nil
  show ?case by (simp add: non_None_entries_def)
next
  case (Cons item rest)
  show ?case
  proof (cases "item = ''None''")
    case True
    with Cons show ?thesis by (simp add: non_None_entries_def)
  next
    case False
    have "merge_loop [] False (item # rest) = merge_loop item True rest"
      using False by simp
    also have "\<dots> = item @ concat (map (\<lambda>y. '', '' @ y) (non_None_entries rest))"
      by (rule merge_loop_found)
    also have "\<dots> = joined (item # non_None_entries rest)"
      by (simp only: joined_Cons)
    also have "\<dots> = joined (non_None_entries (item # rest))"
      using False by (simp add: non_None_entries_def)
    finally show ?thesis .
  qed
qed

lemma merge_list_to_long_string_joined:
  "merge_list_to_long_string xs =
     (if joined (non_None_entries xs) = [] then ''None'' else joined (non_None_entries xs))"
  by (simp add: merge_list_to_long_string_def merge_loop_fresh Let_def)

lemma non_None_entries_all_None:
  "list_all (\<lambda>item. item = ''None'') xs \<Longrightarrow> non_None_entries xs = []"
  by (induction xs) (simp_all add: non_None_entries_def)

text \<open>
  Claim C2, as the code has it. \<^verbatim>\<open>merge_list_to_long_string\<close> returns \<open>''None''\<close> for the
  empty list and for a list whose entries all equal \<open>''None''\<close>, and maps
  \<open>[''A'', ''None'', ''B'']\<close> to \<open>''A, B''\<close>. In general it returns the entries other than
  \<open>''None''\<close> joined by \<open>'', ''\<close> in order, except that an empty joined string is
  replaced by \<open>''None''\<close> (the final test of the code is on the string, not on the flag).
\<close>

theorem merge_list_to_long_string_spec:
  "merge_list_to_long_string [] = ''None''
   \<and> (list_all (\<lambda>item. item = ''None'') xs \<longrightarrow> merge_list_to_long_string xs = ''None'')
   \<and> merge_list_to_long_string [''A'', ''None'', ''B''] = ''A, B''
   \<and> merge_list_to_long_string xs =
       (if joined (non_None_entries xs) = [] then ''None'' else joined (non_None_entries xs))"
proof -
  have "merge_list_to_long_string [] = ''None''"
    by (simp add: merge_list_to_long_string_def)
  moreover have "list_all (\<lambda>item. item = ''None'') xs \<longrightarrow> merge_list_to_long_string xs = ''None''"
    by (simp add: merge_list_to_long_string_joined non_None_entries_all_None)
  moreover have "merge_list_to_long_string [''A'', ''None'', ''B''] = ''A, B''"
    by (simp add: merge_list_to_long_string_def)
  ultimately show ?thesis
    using merge_list_to_long_string_joined [of xs] by blast
qed

theorem merge_list_to_long_string_spec_witness:
  "list_all (\<lambda>item. item = ''None'') [''None'', ''None'']
   \<and> merge_list_to_long_string [''None'', ''None''] = ''None''
   \<and> merge_list_to_long_string [''A'', ''B''] = ''A, B''"
  using merge_list_to_long_string_spec [of "[''None'', ''None'']"]
    merge_list_to_long_string_spec [of "[''A'', ''B'']"]
  by (simp add: non_None_entries_def)

text \<open>
  The claim as written fails on a list whose only entry other than \<open>''None''\<close> is the
  empty string: the entries joined give the empty string, the code returns \<open>''None''\<close>.
\<close>

theorem merge_list_to_long_string_empty_entry:
  "merge_list_to_long_string [''''] = ''None'' \<and> joined (non_None_entries ['''']) = ''''
   \<and> merge_list_to_long_string [''''] \<noteq> joined (non_None_entries [''''])"
  by (simp add: merge_list_to_long_string_def non_None_entries_def)

section \<open>Properties of the credit-load check and of the clash detector\<close>

lemma credit_load_loop_step:
  "credit_load_loop choices (hy # rest) (missed, db) =
     credit_load_loop choices rest
       (missed @ credit_findings_for choices hy, rows_of_year choices hy)"
  by (cases "hy = ''Year 1''"; cases "hy = ''Year 2''"; cases "hy = ''Year 3''";
      cases "length (rows_of_year choices hy) = 8"; cases "length (rows_of_year choices hy) = 7")
    (simp_all add: credit_findings_for_def Let_def)

lemma credit_load_loop_fst:
  "fst (credit_load_loop choices hys (missed, db)) =
     missed @ concat (map (credit_findings_for choices) hys)"
proof (induction hys arbitrary: missed db)
  case Nil
  show ?case by simp
next
  case (Cons hy hys)
  show ?case
    by (simp only: credit_load_loop_step Cons.IH) simp
qed

lemma credit_load_loop_snd:
  "snd (credit_load_loop choices hys (missed, db)) =
     (if hys = [] then db else rows_of_year choices (last hys))"
proof (induction hys arbitrary: missed db)
  case Nil
  show ?case by simp
next
  case (Cons hy hys)
  show ?case
    by (simp only: credit_load_loop_step Cons.IH) simp
qed

lemma set_py_unique: "set (py_unique xs) = set xs"
  by (induction xs) auto

lemma distinct_py_unique: "distinct (py_unique xs)"
  by (induction xs) (auto simp: set_py_unique)

lemma credit_finding_inj: "credit_finding a = credit_finding b \<longleftrightarrow> a = b"
  by (simp add: credit_finding_def)

lemma credit_finding_in_for:
  "credit_finding y \<in> set (credit_findings_for choices hy) \<longleftrightarrow>
     y = hy \<and> (((hy = ''Year 1'' \<or> hy = ''Year 2'') \<and> length (rows_of_year choices hy) \<noteq> 8)
       \<or> (hy = ''Year 3'' \<and> length (rows_of_year choices hy) \<noteq> 7))"
  by (auto simp: credit_findings_for_def credit_finding_inj)

lemma rows_of_year_nonempty:
  "rows_of_year choices y \<noteq> [] \<longleftrightarrow> y \<in> set (honours_years_of choices)"
  by (auto simp: rows_of_year_def honours_years_of_def set_py_unique filter_empty_conv)

lemma credit_finding_emitted:
  "credit_finding y \<in> set (credit_load_findings student) \<longleftrightarrow>
     rows_of_year (honours_module_choices student) y \<noteq> []
     \<and> (((y = ''Year 1'' \<or> y = ''Year 2'')
            \<and> length (rows_of_year (honours_module_choices student) y) \<noteq> 8)
       \<or> (y = ''Year 3'' \<and> length (rows_of_year (honours_module_choices student) y) \<noteq> 7))"
  by (auto simp: credit_load_findings_def credit_load_loop_fst credit_finding_in_for
      rows_of_year_nonempty)

lemma even_split_semesters_set:
  "x \<in> set (even_split_semesters db hy sems recs) \<Longrightarrow>
     x \<in> set recs \<or> x = even_split_advice hy"
proof (induction sems arbitrary: recs)
  case Nil
  then show ?case by simp
next
  case (Cons sem sems)
  from Cons.prems have "x \<in> set (even_split_semesters db hy sems
      (if length (rows_of_semester db sem) \<noteq> 4 then recs @ [even_split_advice hy] else recs))"
    by (simp add: Let_def)
  from Cons.IH [OF this] show ?case
    by (auto split: if_splits)
qed

lemma split_loop_Cons:
  "split_loop expected db (hy # hys) recs =
     split_loop expected db hys (split_step expected db hy recs)"
  by (simp add: split_step_def)

lemma split_step_set:
  "x \<in> set (split_step expected db hy recs) \<Longrightarrow>
     x \<in> set recs \<or> x = even_split_advice hy \<or> x = high_load_advice
       \<or> x = uneven_load_advice"
  using even_split_semesters_set [of x db hy "[''S1'', ''S2'']" recs]
  by (auto simp: split_step_def Let_def split: if_splits)

lemma split_loop_set:
  "x \<in> set (split_loop expected db hys recs) \<Longrightarrow>
     x \<in> set recs \<or> x \<in> even_split_advice ` set hys \<or> x = high_load_advice
       \<or> x = uneven_load_advice"
proof (induction hys arbitrary: recs)
  case Nil
  then show ?case by simp
next
  case (Cons hy hys)
  from Cons.prems have "x \<in> set (split_loop expected db hys (split_step expected db hy recs))"
    by (simp only: split_loop_Cons)
  from Cons.IH [OF this] split_step_set [of x expected db hy recs] show ?case
    by auto
qed

lemma credit_finding_not_advice:
  "credit_finding y \<noteq> even_split_advice hy"
  "credit_finding y \<noteq> high_load_advice"
  "credit_finding y \<noteq> uneven_load_advice"
  by (simp_all add: credit_finding_def even_split_advice_def high_load_advice_def
      uneven_load_advice_def)

lemma credit_finding_not_recommendation:
  "credit_finding y \<notin> set (split_recommendations student)"
proof
  assume "credit_finding y \<in> set (split_recommendations student)"
  then have "credit_finding y \<in> even_split_advice `
       set (honours_years_of (honours_module_choices student))
       \<or> credit_finding y = high_load_advice \<or> credit_finding y = uneven_load_advice"
    using split_loop_set [of "credit_finding y" "expected_honours_years student" _ _ "[]"]
    by (auto simp: split_recommendations_def Let_def)
  then show False
    using credit_finding_not_advice by auto
qed

lemma set_iteration_distinct: "set_iteration it \<Longrightarrow> distinct (it xs)"
  by (simp add: set_iteration_def)

lemma set_iteration_set: "set_iteration it \<Longrightarrow> set (it xs) = set xs"
  by (simp add: set_iteration_def)

lemma distinct_singleton_set: "distinct xs \<Longrightarrow> set xs = {x} \<Longrightarrow> xs = [x]"
proof (cases xs)
  case Nil
  assume "set xs = {x}"
  with Nil show ?thesis by simp
next
  case (Cons y ys)
  assume d: "distinct xs" and s: "set xs = {x}"
  from Cons s have y: "y = x" by auto
  from Cons d s y have "set ys \<subseteq> {x}" "x \<notin> set ys" by auto
  then have "ys = []" by (cases ys) auto
  with Cons y show ?thesis by simp
qed

lemma distinct_pair_set:
  assumes "distinct xs" "set xs = {a, b}" "a \<noteq> b"
  shows "xs = [a, b] \<or> xs = [b, a]"
proof (cases xs)
  case Nil
  with assms show ?thesis by simp
next
  case (Cons y ys)
  from Cons assms have d: "distinct ys" "y \<notin> set ys" by auto
  show ?thesis
  proof (cases "y = a")
    case True
    with Cons assms d have "set ys = {b}" by auto
    with d have "ys = [b]" by (simp add: distinct_singleton_set)
    with Cons True show ?thesis by simp
  next
    case False
    with Cons assms have y: "y = b" by auto
    with Cons assms d have "set ys = {a}" by auto
    with d have "ys = [a]" by (simp add: distinct_singleton_set)
    with Cons y show ?thesis by simp
  qed
qed

lemma set_iteration_Nil: "set_iteration it \<Longrightarrow> it [] = []"
  using set_iteration_set [of it "[]"] by simp

lemma set_iteration_replicate:
  "set_iteration it \<Longrightarrow> set xs = {x} \<Longrightarrow> it xs = [x]"
  using set_iteration_set [of it xs] set_iteration_distinct [of it xs]
  by (simp add: distinct_singleton_set)

lemma count_list_distinct: "distinct xs \<Longrightarrow> count_list xs t = (if t \<in> set xs then 1 else 0)"
  by (induction xs) auto

lemma modules_with_timeslot_holders: "modules_with_timeslot d t = map fst (holders d t)"
  by (simp add: modules_with_timeslot_def holders_def)

lemma holders_iff: "e \<in> set (holders d t) \<longleftrightarrow> e \<in> set d \<and> t \<in> set (snd e)"
  by (auto simp: holders_def)

lemma count_list_all_timeslots:
  "(\<forall>e \<in> set d. distinct (snd e)) \<Longrightarrow>
     count_list (concat (map snd d)) t = length (holders d t)"
  by (induction d) (auto simp: holders_def count_list_append count_list_distinct)

lemma filter_only:
  "distinct xs \<Longrightarrow> t0 \<in> set xs \<Longrightarrow> (\<forall>x \<in> set xs. P x \<longleftrightarrow> x = t0) \<Longrightarrow> filter P xs = [t0]"
proof (induction xs)
  case Nil
  then show ?case by simp
next
  case (Cons x xs)
  show ?case
  proof (cases "x = t0")
    case True
    with Cons.prems have "\<forall>y \<in> set xs. \<not> P y" by auto
    then have "filter P xs = []" by (simp add: filter_empty_conv)
    with True Cons.prems show ?thesis by simp
  next
    case False
    with Cons show ?thesis by auto
  qed
qed

lemma filter_none: "(\<forall>x \<in> set xs. \<not> P x) \<Longrightarrow> filter P xs = []"
  by (simp add: filter_empty_conv)

lemma dict_get_member:
  "distinct (map fst d) \<Longrightarrow> (m, ts) \<in> set d \<Longrightarrow> dict_get d m = ts"
  by (simp add: dict_get_def)

lemma length_le_one_keys:
  assumes "distinct (map fst xs)" "\<And>e1 e2. e1 \<in> set xs \<Longrightarrow> e2 \<in> set xs \<Longrightarrow> fst e1 = fst e2"
  shows "length xs \<le> 1"
proof (cases xs)
  case Nil
  then show ?thesis by simp
next
  case (Cons e es)
  show ?thesis
  proof (cases es)
    case Nil
    with Cons show ?thesis by simp
  next
    case (Cons e' es')
    with \<open>xs = e # es\<close> assms(2) [of e e'] have "fst e = fst e'" by simp
    with Cons \<open>xs = e # es\<close> assms(1) show ?thesis by simp
  qed
qed

lemma two_module_clash:
  assumes it: "set_iteration iteration" and co: "set_iteration combinations"
    and keys: "distinct (map fst d)"
    and A: "(A, tsA) \<in> set d" and B: "(B, tsB) \<in> set d" and AB: "A \<noteq> B"
    and dist: "\<forall>e \<in> set d. distinct (snd e)"
    and share: "set tsA \<inter> set tsB = {t0}"
    and others: "\<forall>e \<in> set d. fst e \<noteq> A \<and> fst e \<noteq> B \<longrightarrow>
        (\<forall>e' \<in> set d. fst e' \<noteq> fst e \<longrightarrow> set (snd e) \<inter> set (snd e') = {})"
  shows "find_clashing_timeslots_and_modules iteration combinations d hy sem
           = [two_module_warning hy sem A B t0]
         \<or> find_clashing_timeslots_and_modules iteration combinations d hy sem
           = [two_module_warning hy sem B A t0]"
proof -
  let ?all = "concat (map snd d)"
  have t0A: "t0 \<in> set tsA" and t0B: "t0 \<in> set tsB"
    using share by auto
  have key_eq: "\<And>e e'. e \<in> set d \<Longrightarrow> e' \<in> set d \<Longrightarrow> fst e = fst e' \<Longrightarrow> e = e'"
    using keys by (metis eq_key_imp_eq_value prod.collapse)
  have eA: "\<And>e. e \<in> set d \<Longrightarrow> fst e = A \<Longrightarrow> e = (A, tsA)"
    using key_eq [OF _ A] by simp
  have eB: "\<And>e. e \<in> set d \<Longrightarrow> fst e = B \<Longrightarrow> e = (B, tsB)"
    using key_eq [OF _ B] by simp
  have cnt: "\<And>t. count_list ?all t = length (holders d t)"
    using dist by (rule count_list_all_timeslots)
  have h0: "set (holders d t0) = {(A, tsA), (B, tsB)}"
  proof
    show "{(A, tsA), (B, tsB)} \<subseteq> set (holders d t0)"
      using A B t0A t0B by (simp add: holders_iff)
    show "set (holders d t0) \<subseteq> {(A, tsA), (B, tsB)}"
    proof
      fix e assume "e \<in> set (holders d t0)"
      then have e: "e \<in> set d" "t0 \<in> set (snd e)" by (simp_all add: holders_iff)
      show "e \<in> {(A, tsA), (B, tsB)}"
      proof (cases "fst e = A \<or> fst e = B")
        case True
        with e(1) eA [of e] eB [of e] show ?thesis by auto
      next
        case False
        with others e(1) A have "set (snd e) \<inter> set (snd (A, tsA)) = {}"
          by (metis fst_conv)
        with e(2) t0A show ?thesis by auto
      qed
    qed
  qed
  have dd: "distinct d" using keys by (simp add: distinct_map)
  have dh: "\<And>t. distinct (map fst (holders d t))"
    using keys by (simp add: holders_def distinct_map_filter)
  have "distinct (holders d t0)" using dd by (simp add: holders_def)
  then have "length (holders d t0) = card {(A, tsA), (B, tsB)}"
    using h0 distinct_card by metis
  then have len0: "length (holders d t0) = 2" using AB by simp
  have len1: "length (holders d t) \<le> 1" if "t \<noteq> t0" for t
  proof (rule length_le_one_keys [OF dh])
    fix e1 e2 assume "e1 \<in> set (holders d t)" "e2 \<in> set (holders d t)"
    then have e: "e1 \<in> set d" "t \<in> set (snd e1)" "e2 \<in> set d" "t \<in> set (snd e2)"
      by (simp_all add: holders_iff)
    show "fst e1 = fst e2"
    proof (rule ccontr)
      assume ne: "fst e1 \<noteq> fst e2"
      have in1: "fst e1 = A \<or> fst e1 = B"
      proof (rule ccontr)
        assume "\<not> ?thesis"
        with others e(1,3) ne have "set (snd e1) \<inter> set (snd e2) = {}" by metis
        with e(2,4) show False by auto
      qed
      have in2: "fst e2 = A \<or> fst e2 = B"
      proof (rule ccontr)
        assume "\<not> ?thesis"
        with others e(1,3) ne have "set (snd e2) \<inter> set (snd e1) = {}" by metis
        with e(2,4) show False by auto
      qed
      have "t \<in> set tsA \<inter> set tsB"
      proof (cases "fst e1 = A")
        case True
        with in2 ne have "fst e2 = B" by simp
        with True e have "e1 = (A, tsA)" "e2 = (B, tsB)" by (simp_all add: eA eB)
        with e(2,4) show ?thesis by simp
      next
        case False
        with in1 have "fst e1 = B" by simp
        moreover from this in2 ne have "fst e2 = A" by auto
        ultimately have "e1 = (B, tsB)" "e2 = (A, tsA)" using e by (simp_all add: eA eB)
        with e(2,4) show ?thesis by simp
      qed
      with share that show False by auto
    qed
  qed
  have t0all: "t0 \<in> set (py_unique ?all)"
    using A t0A by (auto simp: set_py_unique intro!: bexI [of _ "(A, tsA)"])
  have dup: "filter (\<lambda>timeslot. count_list ?all timeslot > 1) (py_unique ?all) = [t0]"
  proof (rule filter_only [OF distinct_py_unique t0all])
    show "\<forall>x \<in> set (py_unique ?all). (1 < count_list ?all x) = (x = t0)"
      using len0 len1 by (auto simp: cnt) (metis not_less)
  qed
  define c where "c = sort (modules_with_timeslot d t0)"
  have cset: "set c = {A, B}"
    using h0 by (simp add: c_def modules_with_timeslot_holders)
  have cdist: "distinct c"
    using dh [of t0] by (simp add: c_def modules_with_timeslot_holders)
  have comb: "combinations [c] = [c]"
    using co by (simp add: set_iteration_replicate)
  define ms where "ms = iteration c"
  have ms: "ms = [A, B] \<or> ms = [B, A]"
    using set_iteration_distinct [OF it, of c] set_iteration_set [OF it, of c] cset AB
    by (simp add: ms_def distinct_pair_set)
  have gA: "dict_get d A = tsA" using keys A by (rule dict_get_member)
  have gB: "dict_get d B = tsB" using keys B by (rule dict_get_member)
  have affA: "iteration (filter (\<lambda>timeslot. timeslot \<in> set tsB) tsA) = [t0]"
    using share by (intro set_iteration_replicate [OF it]) auto
  have affB: "iteration (filter (\<lambda>timeslot. timeslot \<in> set tsA) tsB) = [t0]"
    using share by (intro set_iteration_replicate [OF it]) auto
  have fA: "filter (\<lambda>timeslot. timeslot \<in> set tsA \<and> timeslot \<in> set tsB) tsA
      = filter (\<lambda>timeslot. timeslot \<in> set tsB) tsA"
    by (rule filter_cong) auto
  have fB: "filter (\<lambda>timeslot. timeslot \<in> set tsB \<and> timeslot \<in> set tsA) tsB
      = filter (\<lambda>timeslot. timeslot \<in> set tsA) tsB"
    by (rule filter_cong) auto
  have res: "find_clashing_timeslots_and_modules iteration combinations d hy sem
      = [clash_warning iteration d hy sem c]"
    unfolding find_clashing_timeslots_and_modules_def Let_def dup
    by (simp add: comb c_def [symmetric])
  from ms show ?thesis
  proof
    assume "ms = [A, B]"
    then have "clash_warning iteration d hy sem c = two_module_warning hy sem A B t0"
      by (simp add: clash_warning_def Let_def ms_def [symmetric] gA gB fA affA
          two_module_warning_def)
    with res show ?thesis by simp
  next
    assume "ms = [B, A]"
    then have "clash_warning iteration d hy sem c = two_module_warning hy sem B A t0"
      by (simp add: clash_warning_def Let_def ms_def [symmetric] gA gB fB affB
          two_module_warning_def)
    with res show ?thesis by simp
  qed
qed

lemma find_clashing_no_repeat:
  assumes co: "set_iteration combinations" and d: "distinct (concat (map snd d))"
  shows "find_clashing_timeslots_and_modules iteration combinations d hy sem = []"
proof -
  have "filter (\<lambda>timeslot. count_list (concat (map snd d)) timeslot > 1)
          (py_unique (concat (map snd d))) = []"
    using d by (simp add: filter_empty_conv count_list_distinct)
  then show ?thesis
    unfolding find_clashing_timeslots_and_modules_def Let_def
    by (simp add: set_iteration_Nil [OF co])
qed

lemma py_unique_constant:
  assumes "xs \<noteq> []" "\<forall>y \<in> set xs. y = x"
  shows "py_unique xs = [x]"
proof -
  from assms have "set xs = {x}" by (cases xs) auto
  then show ?thesis
    using distinct_py_unique [of xs] by (simp add: distinct_singleton_set set_py_unique)
qed

lemma filter_all: "(\<forall>x \<in> set xs. P x) \<Longrightarrow> filter P xs = xs"
  by (simp add: filter_id_conv)

lemma single_group_loop:
  assumes co: "set_iteration combinations"
    and rows: "\<forall>row \<in> set choices. Honours_year row = hy \<and> Semester row = sem"
    and sem: "sem = ''S1'' \<or> sem = ''S2''"
    and ne: "choices \<noteq> []"
    and fill: "fill_timeslot_dictionary cat (map Module_code choices) [] = Inr d"
    and res: "find_clashing_timeslots_and_modules iteration combinations d hy sem = ws"
  shows "honours_years_loop iteration combinations cat choices (honours_years_of choices) []
           = Inr (ws @ ws @ ws)"
proof -
  have hys: "honours_years_of choices = [hy]"
    unfolding honours_years_of_def using ne rows by (intro py_unique_constant) auto
  have this_sem: "semester_clashes iteration combinations cat choices hy sem = Inr (ws @ ws @ ws)"
    using rows fill res
    by (simp add: semester_clashes_def Let_def filter_all and_then_def)
  have other: "semester_clashes iteration combinations cat choices hy sem' = Inr []"
    if "sem' \<noteq> sem" for sem'
  proof -
    have "filter (\<lambda>row. Semester row = sem' \<and> Honours_year row = hy) choices = []"
      using rows that by (auto simp: filter_empty_conv)
    then show ?thesis
      by (simp add: semester_clashes_def Let_def and_then_def
          find_clashing_no_repeat [OF co])
  qed
  from sem show ?thesis
  proof
    assume s: "sem = ''S1''"
    then have "''S2'' \<noteq> sem" by simp
    from other [OF this] this_sem s show ?thesis
      by (simp add: hys and_then_def)
  next
    assume s: "sem = ''S2''"
    then have "''S1'' \<noteq> sem" by simp
    from other [OF this] this_sem s show ?thesis
      by (simp add: hys and_then_def)
  qed
qed

lemma timetable_clashes_list_distinct:
  "set_iteration iteration \<Longrightarrow>
     timetable_clashes_list iteration combinations cat student = Inr warnings \<Longrightarrow>
     distinct warnings"
  by (auto simp: timetable_clashes_list_def and_then_def set_iteration_distinct
      split: sum.splits)

lemma merge_single:
  "w \<noteq> ''None'' \<Longrightarrow> w \<noteq> [] \<Longrightarrow> merge_list_to_long_string [w] = w"
  by (simp add: merge_list_to_long_string_def)

lemma two_module_warning_merge:
  "merge_list_to_long_string [two_module_warning hy sem X Y t] = two_module_warning hy sem X Y t"
  by (rule merge_single) (simp_all add: two_module_warning_def)


end
